theory Spec2Isabelle
  imports Main "HOL-Library.Word" "HOL-Library.Sublist"
begin

unbundle bit_operations_syntax

section \<open>The probe finder of perf (tools/perf/util/probe-finder.c)\<close>

text \<open>
  A shallow embedding of the functions of \<^verbatim>\<open>probe-finder.c\<close> (linux-2.6.35).
  C strings are \<^typ>\<open>string\<close>s without the terminating NUL; a pointer that may be
  \<^verbatim>\<open>NULL\<close> is an \<^typ>\<open>'a option\<close>; a function that returns a negative errno
  returns the \<^typ>\<open>int\<close> here as well.
\<close>

subsection \<open>Constants of errno.h\<close>

definition E2BIG :: int where "E2BIG = 7"
definition EBADF :: int where "EBADF = 9"
definition ENOENT :: int where "ENOENT = 2"
definition ENOMEM :: int where "ENOMEM = 12"
definition EFAULT :: int where "EFAULT = 14"
definition EINVAL :: int where "EINVAL = 22"
definition EROFS :: int where "EROFS = 30"
definition ERANGE :: int where "ERANGE = 34"
definition ENAMETOOLONG :: int where "ENAMETOOLONG = 36"
definition ENOTSUP :: int where "ENOTSUP = 95"

subsection \<open>Strings\<close>

text \<open>The value of a plain \<^verbatim>\<open>char\<close> in an \<^verbatim>\<open>int\<close> expression (signed, as on x86).\<close>

definition c_char :: "char \<Rightarrow> int" where
  "c_char c = (let v = int (of_char c) in if v < 128 then v else v - 256)"

text \<open>
  \<^verbatim>\<open>strtailcmp\<close>: the loop \<^verbatim>\<open>while (--i1 >= 0 && --i2 >= 0)\<close>. The counters
  are the numbers of characters not yet compared: the loop ends when \<^verbatim>\<open>i1\<close> is 0
  before the decrement, and then \<^verbatim>\<open>i2\<close> is not touched. (The lengths fit the
  \<^verbatim>\<open>int\<close> counters: the strings are file names.)
\<close>

fun strtailcmp_loop :: "string \<Rightarrow> string \<Rightarrow> nat \<Rightarrow> nat \<Rightarrow> int" where
  "strtailcmp_loop s1 s2 0 i2 = 0"
| "strtailcmp_loop s1 s2 (Suc i1) 0 = 0"
| "strtailcmp_loop s1 s2 (Suc i1) (Suc i2) =
     (if s1 ! i1 \<noteq> s2 ! i2 then c_char (s1 ! i1) - c_char (s2 ! i2)
      else strtailcmp_loop s1 s2 i1 i2)"

definition strtailcmp :: "string \<Rightarrow> string \<Rightarrow> int" where
  "strtailcmp s1 s2 = strtailcmp_loop s1 s2 (length s1) (length s2)"

text \<open>
  The specification's reading of tail matching, in its own words: one path is a suffix of
  the other "at path-component granularity". A path is cut at every \<^verbatim>\<open>/\<close>.
\<close>

fun path_components :: "string \<Rightarrow> string list" where
  "path_components [] = [[]]"
| "path_components (c # cs) =
     (if c = CHR ''/'' then [] # path_components cs
      else (case path_components cs of
              [] \<Rightarrow> [[c]]
            | w # ws \<Rightarrow> (c # w) # ws))"

definition component_tail_match :: "string \<Rightarrow> string \<Rightarrow> bool" where
  "component_tail_match s1 s2 =
     (suffix (path_components s1) (path_components s2)
      \<or> suffix (path_components s2) (path_components s1))"

text \<open>The inverse of \<open>path_components\<close>: the components with a \<^verbatim>\<open>/\<close> between them.\<close>

fun join_path :: "string list \<Rightarrow> string" where
  "join_path [] = []"
| "join_path [w] = w"
| "join_path (w # v # ws) = w @ CHR ''/'' # join_path (v # ws)"

text \<open>
  \<^verbatim>\<open>strcmp\<close> of the C library: the difference of the first two bytes that differ,
  read as \<^verbatim>\<open>unsigned char\<close>; the end of a string is the byte 0.
\<close>

fun strcmp :: "string \<Rightarrow> string \<Rightarrow> int" where
  "strcmp [] [] = 0"
| "strcmp [] (d # ds) = - int (of_char d)"
| "strcmp (c # cs) [] = int (of_char c)"
| "strcmp (c # cs) (d # ds) =
     (if c = d then strcmp cs ds else int (of_char c) - int (of_char d))"

text \<open>
  \<^verbatim>\<open>strchr\<close>: the rest of the string from the first occurrence of the character on,
  \<^const>\<open>None\<close> for \<^verbatim>\<open>NULL\<close>.
\<close>

fun strchr :: "string \<Rightarrow> char \<Rightarrow> string option" where
  "strchr [] c = None"
| "strchr (x # xs) c = (if x = c then Some (x # xs) else strchr xs c)"

text \<open>A string that C can hold: no byte 0 inside.\<close>

definition c_string :: "string \<Rightarrow> bool" where
  "c_string s = (CHR 0x00 \<notin> set s)"

subsection \<open>The world outside: allocation and messages\<close>

text \<open>
  The functions allocate (\<^verbatim>\<open>zalloc\<close>, \<^verbatim>\<open>malloc\<close>, \<^verbatim>\<open>strdup\<close>) and print
  (\<^verbatim>\<open>pr_debug\<close>, \<^verbatim>\<open>pr_info\<close>, \<^verbatim>\<open>pr_warning\<close>, \<^verbatim>\<open>pr_err\<close>). Both are
  threaded through the model as a \<open>world\<close>: \<open>mem\<close> is the number of allocations that
  will still succeed (the next one returns \<^verbatim>\<open>NULL\<close> when it is 0), \<open>log\<close> is the
  list of the levels of the messages printed so far, oldest first.
\<close>

datatype log_level = Debug | Info | Warning | Err

record world =
  mem :: nat
  log :: "log_level list"

definition pr :: "log_level \<Rightarrow> world \<Rightarrow> world" where
  "pr l w = w\<lparr>log := log w @ [l]\<rparr>"

text \<open>An allocation: \<^const>\<open>None\<close> when it returns \<^verbatim>\<open>NULL\<close>, the world after it otherwise.\<close>

definition zalloc :: "world \<Rightarrow> world option" where
  "zalloc w = (case mem w of 0 \<Rightarrow> None | Suc m \<Rightarrow> Some (w\<lparr>mem := m\<rparr>))"

text \<open>
  A run of a function that may dereference \<^verbatim>\<open>NULL\<close> or read outside a buffer:
  \<open>Fault\<close> is that access, \<open>Done\<close> carries what the function returns and leaves behind.
\<close>

datatype 'a run = Fault | Done 'a

subsection \<open>The line number list\<close>

text \<open>
  The list of \<^verbatim>\<open>struct line_node\<close> is the list of its line numbers, first node first.
  \<^verbatim>\<open>list_for_each_entry_reverse\<close> walks it from the last node: \<open>line_list_pos\<close> is that
  search, on the nodes in reverse order. \<open>After k\<close> is the \<^verbatim>\<open>found\<close> label with \<open>k\<close>
  nodes in front of the place of insertion (\<open>k = 0\<close>: \<^verbatim>\<open>p = head\<close>).
\<close>

datatype line_pos = Already | After nat

fun line_list_pos :: "int list \<Rightarrow> int \<Rightarrow> line_pos" where
  "line_list_pos [] line = After 0"
| "line_list_pos (ln # rest) line =
     (if ln < line then After (Suc (length rest))
      else if ln = line then Already
      else line_list_pos rest line)"

definition line_list__add_line :: "int list \<Rightarrow> int \<Rightarrow> world \<Rightarrow> int \<times> int list \<times> world" where
  "line_list__add_line head line w =
     (case line_list_pos (rev head) line of
        Already \<Rightarrow> (1, head, w)
      | After k \<Rightarrow>
          (let w1 = pr Debug w in
           case zalloc w1 of
             None \<Rightarrow> (- ENOMEM, head, w1)
           | Some w2 \<Rightarrow> (0, take k head @ line # drop k head, w2)))"

fun line_list__has_line :: "int list \<Rightarrow> int \<Rightarrow> int" where
  "line_list__has_line [] line = 0"
| "line_list__has_line (ln # rest) line = (if ln = line then 1 else line_list__has_line rest line)"

subsection \<open>Path resolution\<close>

text \<open>
  \<^verbatim>\<open>access(path, R_OK)\<close> is a parameter \<open>acc\<close>: 0 when the call succeeds, the
  \<^verbatim>\<open>errno\<close> it sets otherwise. \<open>next_raw_path\<close> is the statement
  \<^verbatim>\<open>raw_path = strchr(++raw_path, '/')\<close>; on the empty string the increment steps over
  the terminating NUL and \<^verbatim>\<open>strchr\<close> reads outside the string.
\<close>

definition next_raw_path :: "string \<Rightarrow> string option run" where
  "next_raw_path raw_path =
     (case raw_path of
        [] \<Rightarrow> Fault
      | _ # rest \<Rightarrow> Done (strchr rest CHR ''/''))"

text \<open>The cases of \<^verbatim>\<open>switch (errno)\<close> that go round the loop again.\<close>

definition retry_errno :: "int \<Rightarrow> bool" where
  "retry_errno e = (e = ENAMETOOLONG \<or> e = ENOENT \<or> e = EROFS \<or> e = EFAULT)"

text \<open>The \<^verbatim>\<open>for (;;)\<close> loop; the result is the return value and \<^verbatim>\<open>*new_path\<close>.\<close>

partial_function (option) get_real_path_loop ::
  "(string \<Rightarrow> int) \<Rightarrow> string \<Rightarrow> string \<Rightarrow> (int \<times> string option) run option" where
  "get_real_path_loop acc source_prefix raw_path =
     (let new_path = source_prefix @ ''/'' @ raw_path; errno = acc new_path in
      if errno = 0 then Some (Done (0, Some new_path))
      else if retry_errno errno then
        (case next_raw_path raw_path of
           Fault \<Rightarrow> Some Fault
         | Done None \<Rightarrow> Some (Done (- ENOENT, None))
         | Done (Some raw_path') \<Rightarrow> get_real_path_loop acc source_prefix raw_path')
      else Some (Done (- errno, None)))"

text \<open>
  \<^verbatim>\<open>get_real_path\<close>; \<open>source_prefix\<close> is \<^verbatim>\<open>symbol_conf.source_prefix\<close>. Without a
  prefix the result of \<^verbatim>\<open>strdup\<close> is returned unchecked.
\<close>

definition get_real_path ::
  "(string \<Rightarrow> int) \<Rightarrow> string option \<Rightarrow> string \<Rightarrow> world \<Rightarrow> ((int \<times> string option) run \<times> world) option" where
  "get_real_path acc source_prefix raw_path w =
     (case source_prefix of
        None \<Rightarrow>
          (if acc raw_path = 0 then
             (case zalloc w of
                None \<Rightarrow> Some (Done (0, None), w)
              | Some w' \<Rightarrow> Some (Done (0, Some raw_path), w'))
           else Some (Done (- acc raw_path, None), w))
      | Some pre \<Rightarrow>
          (case zalloc w of
             None \<Rightarrow> Some (Done (- ENOMEM, None), w)
           | Some w' \<Rightarrow> map_option (\<lambda>r. (r, w')) (get_real_path_loop acc pre raw_path)))"

subsection \<open>Lazy matching of source lines\<close>

text \<open>
  What \<^verbatim>\<open>open\<close>, \<^verbatim>\<open>fstat\<close> and \<^verbatim>\<open>read\<close> give for the file: the
  \<^verbatim>\<open>errno\<close> of the call that fails, or the \<^verbatim>\<open>st_size\<close> bytes of the file.
\<close>

datatype file_read = Open_fails int | Fstat_fails int | Read_fails int | Contents string

text \<open>
  The \<^verbatim>\<open>while ((p2 = strchr(p1, '\n')) != NULL)\<close> loop. \<open>strlazymatch\<close> (util/string.c)
  is a parameter. The line handed to it is the text between \<^verbatim>\<open>p1\<close> and \<^verbatim>\<open>p2\<close>
  (\<^verbatim>\<open>*p2 = '\0'\<close>); the value of \<^verbatim>\<open>line_list__add_line\<close> is dropped, as in the source.
\<close>

function lazy_match_loop ::
  "(string \<Rightarrow> string \<Rightarrow> bool) \<Rightarrow> string \<Rightarrow> string \<Rightarrow> int \<Rightarrow> int list \<Rightarrow> int \<Rightarrow> world
     \<Rightarrow> int list \<times> int \<times> world" where
  "lazy_match_loop strlazymatch pat p1 line head nlines w =
     (case strchr p1 (CHR 0x0A) of
        None \<Rightarrow> (head, nlines, w)
      | Some p2 \<Rightarrow>
          (let this_line = take (length p1 - length p2) p1 in
           if strlazymatch this_line pat then
             (case line_list__add_line head line w of
                (_, head', w') \<Rightarrow>
                  lazy_match_loop strlazymatch pat (tl p2) (line + 1) head' (nlines + 1) w')
           else lazy_match_loop strlazymatch pat (tl p2) (line + 1) head nlines w))"
  by pat_completeness auto

termination lazy_match_loop
proof (relation "measure (\<lambda>(m, pat, p1, line, head, nlines, w). length p1)")
  have shorter: "length r - Suc 0 < length s" if "strchr s c = Some r" for s r and c :: char
    using that by (induction s) (auto split: if_splits)
  show "wf (measure (\<lambda>(m, pat, p1, line, head, nlines, w). length p1))" by simp
  show "((strlazymatch, pat, tl p2, line + 1, head', nlines + 1, w'),
         (strlazymatch, pat, p1, line, head, nlines, w))
        \<in> measure (\<lambda>(m, pat, p1, line, head, nlines, w). length p1)"
    if "strchr p1 (CHR 0x0A) = Some p2"
    for strlazymatch pat p1 line head nlines w p2 head' w'
    using shorter [OF that] by simp
  show "((strlazymatch, pat, tl p2, line + 1, head, nlines, w),
         (strlazymatch, pat, p1, line, head, nlines, w))
        \<in> measure (\<lambda>(m, pat, p1, line, head, nlines, w). length p1)"
    if "strchr p1 (CHR 0x0A) = Some p2"
    for strlazymatch pat p1 line head nlines w p2
    using shorter [OF that] by simp
qed

text \<open>
  \<^verbatim>\<open>find_lazy_match_lines\<close>. The buffer is the file followed by a newline ("Dummy line")
  and a NUL; as a C string it ends at its first NUL.
\<close>

definition find_lazy_match_lines ::
  "(string \<Rightarrow> string \<Rightarrow> bool) \<Rightarrow> file_read \<Rightarrow> int list \<Rightarrow> string \<Rightarrow> world \<Rightarrow> int \<times> int list \<times> world" where
  "find_lazy_match_lines strlazymatch file head pat w =
     (case file of
        Open_fails errno \<Rightarrow> (- errno, head, pr Warning w)
      | Fstat_fails errno \<Rightarrow> (- errno, head, pr Warning w)
      | Read_fails errno \<Rightarrow>
          (case zalloc w of
             None \<Rightarrow> (- ENOMEM, head, w)
           | Some w' \<Rightarrow> (- errno, head, pr Warning w'))
      | Contents bytes \<Rightarrow>
          (case zalloc w of
             None \<Rightarrow> (- ENOMEM, head, w)
           | Some w' \<Rightarrow>
               (let fbuf = takeWhile (\<lambda>c. c \<noteq> CHR 0x00) (bytes @ [CHR 0x0A]) in
                case lazy_match_loop strlazymatch pat fbuf 1 head 0 w' of
                  (head', nlines, w'') \<Rightarrow> (nlines, head', w''))))"

text \<open>
  For the statement about the matcher: the numbers of the lines of a list that match,
  the first line of the list having the number \<open>line\<close>.
\<close>

fun matching_lines :: "(string \<Rightarrow> string \<Rightarrow> bool) \<Rightarrow> string \<Rightarrow> string list \<Rightarrow> int \<Rightarrow> int list" where
  "matching_lines m pat [] line = []"
| "matching_lines m pat (l # ls) line =
     (if m l pat then [line] else []) @ matching_lines m pat ls (line + 1)"

subsection \<open>DWARF: what libdw tells about a DIE\<close>

type_synonym Dwarf_Addr = "64 word"
type_synonym Dwarf_Word = "64 word"

text \<open>
  \<^verbatim>\<open>long\<close> is 64 bits wide, \<^verbatim>\<open>int\<close> and \<^verbatim>\<open>unsigned int\<close> 32 bits; a signed
  value is read off the word with \<^const>\<open>sint\<close>. Signed arithmetic wraps around in
  the model.
\<close>

type_synonym long = "64 word"
type_synonym c_int = "32 word"

text \<open>The operations of a location expression (\<^verbatim>\<open>Dwarf_Op\<close> of libdw.h).\<close>

record Dwarf_Op =
  atom :: "8 word"
  number :: Dwarf_Word
  number2 :: Dwarf_Word

definition DW_OP_addr :: "8 word" where "DW_OP_addr = 0x03"
definition DW_OP_plus_uconst :: "8 word" where "DW_OP_plus_uconst = 0x23"
definition DW_OP_reg0 :: "8 word" where "DW_OP_reg0 = 0x50"
definition DW_OP_reg31 :: "8 word" where "DW_OP_reg31 = 0x6f"
definition DW_OP_breg0 :: "8 word" where "DW_OP_breg0 = 0x70"
definition DW_OP_breg31 :: "8 word" where "DW_OP_breg31 = 0x8f"
definition DW_OP_regx :: "8 word" where "DW_OP_regx = 0x90"
definition DW_OP_fbreg :: "8 word" where "DW_OP_fbreg = 0x91"
definition DW_OP_bregx :: "8 word" where "DW_OP_bregx = 0x92"
definition DW_OP_call_frame_cfa :: "8 word" where "DW_OP_call_frame_cfa = 0x9c"

definition DW_TAG_array_type :: int where "DW_TAG_array_type = 0x01"
definition DW_TAG_formal_parameter :: int where "DW_TAG_formal_parameter = 0x05"
definition DW_TAG_member :: int where "DW_TAG_member = 0x0d"
definition DW_TAG_pointer_type :: int where "DW_TAG_pointer_type = 0x0f"
definition DW_TAG_structure_type :: int where "DW_TAG_structure_type = 0x13"
definition DW_TAG_typedef :: int where "DW_TAG_typedef = 0x16"
definition DW_TAG_inlined_subroutine :: int where "DW_TAG_inlined_subroutine = 0x1d"
definition DW_TAG_const_type :: int where "DW_TAG_const_type = 0x26"
definition DW_TAG_subprogram :: int where "DW_TAG_subprogram = 0x2e"
definition DW_TAG_variable :: int where "DW_TAG_variable = 0x34"
definition DW_TAG_volatile_type :: int where "DW_TAG_volatile_type = 0x35"
definition DW_TAG_restrict_type :: int where "DW_TAG_restrict_type = 0x37"
definition DW_TAG_shared_type :: int where "DW_TAG_shared_type = 0x40"

definition DW_ATE_signed :: Dwarf_Word where "DW_ATE_signed = 0x5"
definition DW_ATE_signed_char :: Dwarf_Word where "DW_ATE_signed_char = 0x6"
definition DW_ATE_signed_fixed :: Dwarf_Word where "DW_ATE_signed_fixed = 0xd"

text \<open>
  \<^verbatim>\<open>DW_AT_data_member_location\<close> as the two calls of
  \<^verbatim>\<open>die_get_data_member_location\<close> see it: \<open>Constant\<close> when
  \<^verbatim>\<open>dwarf_formudata\<close> succeeds, otherwise \<open>Location\<close> with what
  \<^verbatim>\<open>dwarf_getlocation\<close> gives (\<^const>\<open>None\<close> for a negative return value).
\<close>

datatype member_location = Constant Dwarf_Word | Location "Dwarf_Op list option"

text \<open>
  A DIE is known to the program only through libdw. Its attributes are the answers of the
  libdw calls the program makes: \<^const>\<open>None\<close> where the call fails or the attribute
  is missing. \<open>die_location\<close> and \<open>die_frame_base\<close> are \<^verbatim>\<open>dwarf_attr\<close> followed by
  \<^verbatim>\<open>dwarf_getlocation_addr\<close> at an address for one expression: the operations, when the
  return value is positive. \<open>die_haspc\<close> is the value of \<^verbatim>\<open>dwarf_haspc\<close>.
\<close>

record die_attrs =
  die_tag :: int
  die_name :: "string option"
  die_byte_size :: "Dwarf_Word option"
  die_encoding :: "Dwarf_Word option"
  die_member_location :: "member_location option"
  die_location :: "Dwarf_Addr \<Rightarrow> Dwarf_Op list option"
  die_frame_base :: "Dwarf_Addr \<Rightarrow> Dwarf_Op list option"
  die_haspc :: "Dwarf_Addr \<Rightarrow> int"
  die_entrypc :: "Dwarf_Addr option"
  die_decl_line :: "c_int option"

text \<open>
  The DIE with the DIE its \<^verbatim>\<open>DW_AT_type\<close> refers to (\<^verbatim>\<open>dwarf_formref_die\<close>) and
  its children in order (\<^verbatim>\<open>dwarf_child\<close>, \<^verbatim>\<open>dwarf_siblingof\<close>).
\<close>

datatype die = Die (attrs: die_attrs) (at_type: "die option") (children: "die list")

definition dwarf_tag :: "die \<Rightarrow> int" where
  "dwarf_tag d = die_tag (attrs d)"

definition dwarf_diename :: "die \<Rightarrow> string option" where
  "dwarf_diename d = die_name (attrs d)"

definition dwarf_haspc :: "die \<Rightarrow> Dwarf_Addr \<Rightarrow> int" where
  "dwarf_haspc d pc = die_haspc (attrs d) pc"

definition dwarf_entrypc :: "die \<Rightarrow> Dwarf_Addr option" where
  "dwarf_entrypc d = die_entrypc (attrs d)"

definition dwarf_decl_line :: "die \<Rightarrow> c_int option" where
  "dwarf_decl_line d = die_decl_line (attrs d)"

text \<open>
  \<^verbatim>\<open>die_compare_name\<close> returns \<^verbatim>\<open>bool\<close>: the \<^verbatim>\<open>int\<close> of
  \<^verbatim>\<open>name ? strcmp(tname, name) : -1\<close> is converted, and is true when it is not 0.
\<close>

definition die_compare_name :: "die \<Rightarrow> string \<Rightarrow> bool" where
  "die_compare_name dw_die tname =
     ((case dwarf_diename dw_die of
         Some name \<Rightarrow> strcmp tname name
       | None \<Rightarrow> - 1) \<noteq> 0)"

text \<open>\<^verbatim>\<open>die_get_real_type\<close>: the \<^verbatim>\<open>do ... while\<close> loop over qualifiers and typedefs.\<close>

definition is_qualifier_tag :: "int \<Rightarrow> bool" where
  "is_qualifier_tag tag =
     (tag = DW_TAG_const_type \<or> tag = DW_TAG_restrict_type \<or> tag = DW_TAG_volatile_type
      \<or> tag = DW_TAG_shared_type \<or> tag = DW_TAG_typedef)"

fun die_get_real_type :: "die \<Rightarrow> die option" where
  "die_get_real_type (Die a None cs) = None"
| "die_get_real_type (Die a (Some die_mem) cs) =
     (if is_qualifier_tag (dwarf_tag die_mem) then die_get_real_type die_mem
      else Some die_mem)"

definition die_is_signed_type :: "die \<Rightarrow> bool" where
  "die_is_signed_type tp_die =
     (case die_encoding (attrs tp_die) of
        None \<Rightarrow> False
      | Some ret \<Rightarrow> ret = DW_ATE_signed_char \<or> ret = DW_ATE_signed \<or> ret = DW_ATE_signed_fixed)"

text \<open>\<^verbatim>\<open>die_get_byte_size\<close>: \<^verbatim>\<open>(int)ret\<close> keeps the low 32 bits.\<close>

definition die_get_byte_size :: "die \<Rightarrow> c_int" where
  "die_get_byte_size tp_die =
     (case die_byte_size (attrs tp_die) of
        None \<Rightarrow> 0
      | Some ret \<Rightarrow> ucast ret)"

text \<open>
  \<^verbatim>\<open>die_get_data_member_location\<close>: the negative return value, or the offset stored
  in \<^verbatim>\<open>*offs\<close> with the return value 0.
\<close>

definition die_get_data_member_location :: "die \<Rightarrow> world \<Rightarrow> (int + Dwarf_Word) \<times> world" where
  "die_get_data_member_location mb_die w =
     (case die_member_location (attrs mb_die) of
        None \<Rightarrow> (Inl (- ENOENT), w)
      | Some (Constant offs) \<Rightarrow> (Inr offs, w)
      | Some (Location None) \<Rightarrow> (Inl (- ENOENT), w)
      | Some (Location (Some [])) \<Rightarrow> (Inl (- ENOENT), w)
      | Some (Location (Some (e # expr))) \<Rightarrow>
          (if atom e \<noteq> DW_OP_plus_uconst \<or> expr \<noteq> [] then (Inl (- ENOTSUP), pr Debug w)
           else (Inr (number e), w)))"

text \<open>
  \<^verbatim>\<open>die_find_child\<close>: \<open>die_find_sibling\<close> is the \<^verbatim>\<open>do ... while\<close> loop over a
  DIE and the siblings after it.
\<close>

definition DIE_FIND_CB_FOUND :: int where "DIE_FIND_CB_FOUND = 0"
definition DIE_FIND_CB_CHILD :: int where "DIE_FIND_CB_CHILD = 1"
definition DIE_FIND_CB_SIBLING :: int where "DIE_FIND_CB_SIBLING = 2"
definition DIE_FIND_CB_CONTINUE :: int where "DIE_FIND_CB_CONTINUE = 3"

fun die_find_child :: "die \<Rightarrow> (die \<Rightarrow> int) \<Rightarrow> die option"
  and die_find_sibling :: "die list \<Rightarrow> (die \<Rightarrow> int) \<Rightarrow> die option" where
  "die_find_child (Die a t cs) callback = die_find_sibling cs callback"
| "die_find_sibling [] callback = None"
| "die_find_sibling (die_mem # siblings) callback =
     (let ret = callback die_mem in
      if ret = DIE_FIND_CB_FOUND then Some die_mem
      else (case (if ret AND DIE_FIND_CB_CHILD \<noteq> 0 then die_find_child die_mem callback
                  else None) of
              Some child_die \<Rightarrow> Some child_die
            | None \<Rightarrow>
                if ret AND DIE_FIND_CB_SIBLING \<noteq> 0 then die_find_sibling siblings callback
                else None))"

text \<open>
  \<^verbatim>\<open>die_find_real_subprogram\<close>: \<^verbatim>\<open>dwarf_getfuncs\<close> hands the function DIEs of the
  CU, its children with the tag of a subprogram, to the callback until one aborts.
\<close>

definition dwarf_getfuncs :: "die \<Rightarrow> die list" where
  "dwarf_getfuncs cu_die = filter (\<lambda>d. dwarf_tag d = DW_TAG_subprogram) (children cu_die)"

definition die_find_real_subprogram :: "die \<Rightarrow> Dwarf_Addr \<Rightarrow> die option" where
  "die_find_real_subprogram cu_die addr =
     find (\<lambda>fn_die. dwarf_tag fn_die = DW_TAG_subprogram \<and> dwarf_haspc fn_die addr \<noteq> 0)
       (dwarf_getfuncs cu_die)"

definition die_find_inline_cb :: "Dwarf_Addr \<Rightarrow> die \<Rightarrow> int" where
  "die_find_inline_cb addr die_mem =
     (if dwarf_tag die_mem = DW_TAG_inlined_subroutine \<and> dwarf_haspc die_mem addr \<noteq> 0
      then DIE_FIND_CB_FOUND else DIE_FIND_CB_CONTINUE)"

definition die_find_inlinefunc :: "die \<Rightarrow> Dwarf_Addr \<Rightarrow> die option" where
  "die_find_inlinefunc sp_die addr = die_find_child sp_die (die_find_inline_cb addr)"

definition die_find_variable_cb :: "string \<Rightarrow> die \<Rightarrow> int" where
  "die_find_variable_cb name die_mem =
     (if (dwarf_tag die_mem = DW_TAG_formal_parameter \<or> dwarf_tag die_mem = DW_TAG_variable)
         \<and> \<not> die_compare_name die_mem name
      then DIE_FIND_CB_FOUND else DIE_FIND_CB_CONTINUE)"

definition die_find_variable :: "die \<Rightarrow> string \<Rightarrow> die option" where
  "die_find_variable sp_die name = die_find_child sp_die (die_find_variable_cb name)"

definition die_find_member_cb :: "string \<Rightarrow> die \<Rightarrow> int" where
  "die_find_member_cb name die_mem =
     (if dwarf_tag die_mem = DW_TAG_member \<and> \<not> die_compare_name die_mem name
      then DIE_FIND_CB_FOUND else DIE_FIND_CB_SIBLING)"

definition die_find_member :: "die \<Rightarrow> string \<Rightarrow> die option" where
  "die_find_member st_die name = die_find_child st_die (die_find_member_cb name)"

text \<open>For concrete inputs: the attributes of a DIE of which libdw knows nothing but the tag.\<close>

definition no_attrs :: "int \<Rightarrow> die_attrs" where
  "no_attrs tag =
     \<lparr>die_tag = tag, die_name = None, die_byte_size = None, die_encoding = None,
      die_member_location = None, die_location = (\<lambda>pc. None), die_frame_base = (\<lambda>pc. None),
      die_haspc = (\<lambda>pc. 0), die_entrypc = None, die_decl_line = None\<rparr>"

subsection \<open>Probe events (probe-event.h) and the probe finder (probe-finder.h)\<close>

text \<open>
  The structures, with the fields this file reads or writes. A chain of
  \<^verbatim>\<open>next\<close> pointers is a list, first node first: the fields of an argument, and
  the \<^verbatim>\<open>kprobe_trace_arg_ref\<close> chain of a trace argument, which is the list of its
  offsets (\<^verbatim>\<open>tvar->ref == NULL\<close> is the empty list). A \<^verbatim>\<open>char *\<close> that may be
  \<^verbatim>\<open>NULL\<close> is a \<^typ>\<open>string option\<close>.
\<close>

record perf_probe_arg_field =
  field_name :: string
  field_index :: long
  field_ref :: bool

record perf_probe_arg =
  parg_name :: "string option"
  parg_var :: string
  parg_type :: "string option"
  parg_field :: "perf_probe_arg_field list"

record perf_probe_point =
  pp_file :: "string option"
  pp_function :: "string option"
  pp_line :: c_int
  pp_offset :: "64 word"
  pp_lazy_line :: "string option"

record perf_probe_event =
  pev_point :: perf_probe_point
  pev_args :: "perf_probe_arg list"

record kprobe_trace_arg =
  targ_name :: "string option"
  targ_value :: "string option"
  targ_type :: "string option"
  targ_ref :: "long list"

record kprobe_trace_event =
  tev_symbol :: "string option"
  tev_offset :: "64 word"
  tev_nargs :: int
  tev_args :: "kprobe_trace_arg list"

text \<open>
  \<^verbatim>\<open>struct probe_finder\<close>. \<open>pf_tevs\<close> is the array of \<^verbatim>\<open>max_tevs\<close> events.
  \<^verbatim>\<open>pf->pvar\<close> and \<^verbatim>\<open>pf->tvar\<close> point into the argument arrays; the model keeps
  the argument they point to, and \<^verbatim>\<open>convert_probe_point\<close>, which sets the pointers,
  copies \<open>pf_tvar\<close> back into the array after each call. \<open>pf_cfi\<close> is the call frame
  information (\<^const>\<open>None\<close> for \<^verbatim>\<open>pf->cfi == NULL\<close>): for an address,
  \<^const>\<open>None\<close> when \<^verbatim>\<open>dwarf_cfi_addrframe\<close> or \<^verbatim>\<open>dwarf_frame_cfa\<close> fails,
  otherwise the operations the latter stores in \<^verbatim>\<open>pf->fb_ops\<close>.
\<close>

record probe_finder =
  pf_pev :: perf_probe_event
  pf_tevs :: "kprobe_trace_event list"
  pf_ntevs :: int
  pf_max_tevs :: int
  pf_lno :: int
  pf_addr :: Dwarf_Addr
  pf_fname :: "string option"
  pf_cu_die :: die
  pf_lcache :: "int list"
  pf_cfi :: "(Dwarf_Addr \<Rightarrow> Dwarf_Op list option option) option"
  pf_fb_ops :: "Dwarf_Op list option"
  pf_pvar :: perf_probe_arg
  pf_tvar :: kprobe_trace_arg

text \<open>
  The functions of other files that the finder calls: \<^verbatim>\<open>get_arch_regstr\<close>
  (dwarf-regs), \<^verbatim>\<open>is_c_varname\<close> (util), \<^verbatim>\<open>synthesize_perf_probe_arg\<close>
  (probe-event.c: its return value and the text it leaves in the buffer), and libdw's scope
  search (\<^verbatim>\<open>dwarf_getscopes_die\<close> followed by \<^verbatim>\<open>dwarf_getscopevar\<close>: the DIE of the
  variable when both succeed).
\<close>

record env =
  get_arch_regstr :: "32 word \<Rightarrow> string option"
  is_c_varname :: "string \<Rightarrow> bool"
  synthesize_perf_probe_arg :: "perf_probe_arg \<Rightarrow> int \<times> string"
  dwarf_getscopevar :: "die \<Rightarrow> string \<Rightarrow> die option"

definition MAX_BASIC_TYPE_BITS :: c_int where "MAX_BASIC_TYPE_BITS = 64"

subsection \<open>The location of a variable\<close>

text \<open>
  The chain \<^verbatim>\<open>if (op->atom >= DW_OP_breg0 && ...) ... else ...\<close> of
  \<^verbatim>\<open>convert_variable_location\<close>: the register number, the offset and the \<^verbatim>\<open>ref\<close>
  flag after it, \<^const>\<open>None\<close> for an operation that is not supported.
\<close>

definition location_register ::
  "Dwarf_Op \<Rightarrow> Dwarf_Word \<Rightarrow> bool \<Rightarrow> (32 word \<times> Dwarf_Word \<times> bool) option" where
  "location_register opr offs ref =
     (if DW_OP_breg0 \<le> atom opr \<and> atom opr \<le> DW_OP_breg31
        then Some (ucast (atom opr) - ucast DW_OP_breg0, offs + number opr, True)
      else if DW_OP_reg0 \<le> atom opr \<and> atom opr \<le> DW_OP_reg31
        then Some (ucast (atom opr) - ucast DW_OP_reg0, offs, ref)
      else if atom opr = DW_OP_bregx
        then Some (ucast (number opr), offs + number2 opr, True)
      else if atom opr = DW_OP_regx
        then Some (ucast (number opr), offs, ref)
      else None)"

text \<open>The end of \<^verbatim>\<open>convert_variable_location\<close>, from \<^verbatim>\<open>get_arch_regstr\<close> on.\<close>

definition location_value ::
  "env \<Rightarrow> 32 word \<Rightarrow> Dwarf_Word \<Rightarrow> bool \<Rightarrow> probe_finder \<Rightarrow> world \<Rightarrow> int \<times> probe_finder \<times> world" where
  "location_value e regn offs ref pf w =
     (case get_arch_regstr e regn of
        None \<Rightarrow> (- ERANGE, pf, pr Warning w)
      | Some regs \<Rightarrow>
          (case zalloc w of
             None \<Rightarrow> (- ENOMEM, pf\<lparr>pf_tvar := (pf_tvar pf)\<lparr>targ_value := None\<rparr>\<rparr>, w)
           | Some w1 \<Rightarrow>
               (let pf1 = pf\<lparr>pf_tvar := (pf_tvar pf)\<lparr>targ_value := Some regs\<rparr>\<rparr> in
                if ref then
                  (case zalloc w1 of
                     None \<Rightarrow> (- ENOMEM, pf1\<lparr>pf_tvar := (pf_tvar pf1)\<lparr>targ_ref := []\<rparr>\<rparr>, w1)
                   | Some w2 \<Rightarrow> (0, pf1\<lparr>pf_tvar := (pf_tvar pf1)\<lparr>targ_ref := [offs]\<rparr>\<rparr>, w2))
                else (0, pf1, w1))))"

text \<open>
  \<^verbatim>\<open>convert_variable_location\<close>. \<^verbatim>\<open>op\<close> is the first operation of the location
  at \<^verbatim>\<open>pf->addr\<close>; for \<^verbatim>\<open>DW_OP_fbreg\<close> it becomes \<^verbatim>\<open>&pf->fb_ops[0]\<close>.
  \<open>Fault\<close>: \<^verbatim>\<open>strlen\<close> of the name of a DIE that has none, and the read of
  \<^verbatim>\<open>fb_ops[0]\<close> when there are no operations.
\<close>

definition convert_variable_location ::
  "env \<Rightarrow> die \<Rightarrow> probe_finder \<Rightarrow> world \<Rightarrow> (int \<times> probe_finder \<times> world) run" where
  "convert_variable_location e vr_die pf w =
     (case die_location (attrs vr_die) (pf_addr pf) of
        None \<Rightarrow> Done (- ENOENT, pf, pr Err w)
      | Some [] \<Rightarrow> Done (- ENOENT, pf, pr Err w)
      | Some (opr # _) \<Rightarrow>
          if atom opr = DW_OP_addr then
            (case dwarf_diename vr_die of
               None \<Rightarrow> Fault
             | Some name \<Rightarrow>
                 (case zalloc w of
                    None \<Rightarrow> Done (- ENOMEM, pf\<lparr>pf_tvar := (pf_tvar pf)\<lparr>targ_value := None\<rparr>\<rparr>, w)
                  | Some w1 \<Rightarrow>
                      (let pf1 = pf\<lparr>pf_tvar := (pf_tvar pf)\<lparr>targ_value := Some (''@'' @ name)\<rparr>\<rparr> in
                       case zalloc w1 of
                         None \<Rightarrow> Done (- ENOMEM, pf1\<lparr>pf_tvar := (pf_tvar pf1)\<lparr>targ_ref := []\<rparr>\<rparr>, w1)
                       | Some w2 \<Rightarrow> Done (0, pf1\<lparr>pf_tvar := (pf_tvar pf1)\<lparr>targ_ref := [0]\<rparr>\<rparr>, w2))))
          else if atom opr = DW_OP_fbreg then
            (case pf_fb_ops pf of
               None \<Rightarrow> Done (- ENOTSUP, pf, pr Warning w)
             | Some [] \<Rightarrow> Fault
             | Some (fb_op # _) \<Rightarrow>
                 (case location_register fb_op (number opr) True of
                    None \<Rightarrow> Done (- ENOTSUP, pf, pr Warning w)
                  | Some (regn, offs, ref) \<Rightarrow> Done (location_value e regn offs ref pf w)))
          else
            (case location_register opr 0 False of
               None \<Rightarrow> Done (- ENOTSUP, pf, pr Warning w)
             | Some (regn, offs, ref) \<Rightarrow> Done (location_value e regn offs ref pf w)))"

subsection \<open>The type of a variable\<close>

text \<open>\<^verbatim>\<open>%d\<close> of \<^verbatim>\<open>snprintf\<close>.\<close>

fun show_nat :: "nat \<Rightarrow> string" where
  "show_nat n =
     (if n < 10 then [char_of (48 + n)]
      else show_nat (n div 10) @ [char_of (48 + n mod 10)])"

definition show_int :: "int \<Rightarrow> string" where
  "show_int i = (if i < 0 then CHR ''-'' # show_nat (nat (- i)) else show_nat (nat i))"

text \<open>
  \<^verbatim>\<open>convert_variable_type\<close>. \<^verbatim>\<open>ret\<close> is an \<^verbatim>\<open>int\<close>; the value of
  \<^verbatim>\<open>snprintf\<close> is the length of the text it was asked to write.
\<close>

definition convert_variable_type ::
  "die \<Rightarrow> kprobe_trace_arg \<Rightarrow> world \<Rightarrow> int \<times> kprobe_trace_arg \<times> world" where
  "convert_variable_type vr_die targ w =
     (case die_get_real_type vr_die of
        None \<Rightarrow> (- ENOENT, targ, pr Warning w)
      | Some type \<Rightarrow>
          (let w1 = pr Debug w;
               ret = die_get_byte_size type * 8
           in if ret \<noteq> 0 then
                (let (ret, w2) = (if sint MAX_BASIC_TYPE_BITS < sint ret
                                  then (MAX_BASIC_TYPE_BITS, pr Info w1) else (ret, w1));
                     buf = (if die_is_signed_type type then CHR ''s'' else CHR ''u'')
                           # show_int (sint ret);
                     ret = int (length buf)
                 in if ret < 0 \<or> ret \<ge> 16 then
                      ((if ret \<ge> 16 then - E2BIG else ret), targ, pr Warning w2)
                    else
                      (case zalloc w2 of
                         None \<Rightarrow> (- ENOMEM, targ\<lparr>targ_type := None\<rparr>, w2)
                       | Some w3 \<Rightarrow> (0, targ\<lparr>targ_type := Some buf\<rparr>, w3)))
              else (0, targ, w1)))"

subsection \<open>The fields of a variable\<close>

text \<open>
  \<^verbatim>\<open>ref->offset += x\<close>: \<^verbatim>\<open>ref\<close> is the last node of the chain, and the access is
  a \<open>Fault\<close> when the chain is empty (\<^verbatim>\<open>ref == NULL\<close>).
\<close>

definition add_ref_offset :: "long list \<Rightarrow> long \<Rightarrow> long list run" where
  "add_ref_offset refs x =
     (case refs of
        [] \<Rightarrow> Fault
      | _ # _ \<Rightarrow> Done (butlast refs @ [last refs + x]))"

text \<open>
  The body of \<^verbatim>\<open>convert_variable_fields\<close> for one field, up to the label
  \<^verbatim>\<open>next\<close>. \<open>Return\<close> is a \<^verbatim>\<open>return\<close> with its value, \<open>Next\<close> reaches the
  label with the DIE stored in \<^verbatim>\<open>die_mem\<close>; both carry the chain of
  \<^verbatim>\<open>*ref_ptr\<close> and the world. \<open>has_next\<close> is \<^verbatim>\<open>field->next != NULL\<close>.
  A new node is linked behind the last one, or becomes the chain when there is none.
\<close>

datatype field_step = Return int "long list" world | Next die "long list" world | Null_deref

definition member_step :: "die \<Rightarrow> string \<Rightarrow> perf_probe_arg_field \<Rightarrow> long list \<Rightarrow> world \<Rightarrow> field_step" where
  "member_step type varname field refs w =
     (case die_find_member type (field_name field) of
        None \<Rightarrow> Return (- EINVAL) refs (pr Warning w)
      | Some die_mem \<Rightarrow>
          (case die_get_data_member_location die_mem w of
             (Inl ret, w1) \<Rightarrow> Return ret refs (pr Warning w1)
           | (Inr offs, w1) \<Rightarrow>
               (case add_ref_offset refs offs of
                  Fault \<Rightarrow> Null_deref
                | Done refs1 \<Rightarrow> Next die_mem refs1 w1)))"

definition convert_variable_field ::
  "die \<Rightarrow> string \<Rightarrow> perf_probe_arg_field \<Rightarrow> bool \<Rightarrow> long list \<Rightarrow> world \<Rightarrow> field_step" where
  "convert_variable_field vr_die varname field has_next refs w0 =
     (let w = pr Debug w0 in
      case die_get_real_type vr_die of
        None \<Rightarrow> Return (- ENOENT) refs (pr Warning w)
      | Some type \<Rightarrow>
          (let w = pr Debug w; tag = dwarf_tag type in
           if take 1 (field_name field) = ''['' \<and>
              (tag = DW_TAG_array_type \<or> tag = DW_TAG_pointer_type) then
             (case die_get_real_type type of
                None \<Rightarrow> Return (- ENOENT) refs (pr Warning w)
              | Some elem \<Rightarrow>
                  (let w = pr Debug w in
                   case (if tag = DW_TAG_pointer_type
                         then map_option (\<lambda>w'. (refs @ [0], w')) (zalloc w)
                         else Some (refs, w)) of
                     None \<Rightarrow> Return (- ENOMEM) refs w
                   | Some (refs1, w1) \<Rightarrow>
                       (case add_ref_offset refs1 (scast (die_get_byte_size elem) * field_index field) of
                          Fault \<Rightarrow> Null_deref
                        | Done refs2 \<Rightarrow> Next (if has_next then type else vr_die) refs2 w1)))
           else if tag = DW_TAG_pointer_type then
             (if \<not> field_ref field then Return (- EINVAL) refs (pr Err w)
              else
                (case die_get_real_type type of
                   None \<Rightarrow> Return (- ENOENT) refs (pr Warning w)
                 | Some pointee \<Rightarrow>
                     if dwarf_tag pointee \<noteq> DW_TAG_structure_type
                     then Return (- EINVAL) refs (pr Warning w)
                     else
                       (case zalloc w of
                          None \<Rightarrow> Return (- ENOMEM) refs w
                        | Some w1 \<Rightarrow> member_step pointee varname field (refs @ [0]) w1)))
           else
             (if tag \<noteq> DW_TAG_structure_type then Return (- EINVAL) refs (pr Warning w)
              else if take 1 (field_name field) = ''['' then Return (- EINVAL) refs (pr Err w)
              else if field_ref field then Return (- EINVAL) refs (pr Err w)
              else if refs = [] then Return (- ENOTSUP) refs (pr Warning w)
              else member_step type varname field refs w)))"

text \<open>
  \<^verbatim>\<open>convert_variable_fields\<close>: \<open>field\<close> is the field, \<open>next\<close> the chain behind it.
  The result is the return value, the chain of \<^verbatim>\<open>*ref_ptr\<close>, the DIE in
  \<^verbatim>\<open>die_mem\<close> (left out after an error, when nothing reads it), and the world. The
  recursive call has \<^verbatim>\<open>die_mem\<close> as its \<^verbatim>\<open>vr_die\<close>.
\<close>

fun convert_variable_fields ::
  "die \<Rightarrow> string \<Rightarrow> perf_probe_arg_field \<Rightarrow> perf_probe_arg_field list \<Rightarrow> long list \<Rightarrow> world
     \<Rightarrow> (int \<times> long list \<times> die option \<times> world) run" where
  "convert_variable_fields vr_die varname field next refs w =
     (case convert_variable_field vr_die varname field (next \<noteq> []) refs w of
        Null_deref \<Rightarrow> Fault
      | Return ret refs1 w1 \<Rightarrow> Done (ret, refs1, None, w1)
      | Next die_mem refs1 w1 \<Rightarrow>
          (case next of
             [] \<Rightarrow> Done (0, refs1, Some die_mem, w1)
           | f # fs \<Rightarrow> convert_variable_fields die_mem (field_name field) f fs refs1 w1))"

subsection \<open>A variable, an argument, a probe point\<close>

text \<open>
  \<^verbatim>\<open>convert_variable\<close>. After the fields \<^verbatim>\<open>vr_die\<close> is \<^verbatim>\<open>&die_mem\<close>; reading
  a \<^verbatim>\<open>die_mem\<close> that was not written is a \<open>Fault\<close>.
\<close>

definition set_tvar_type :: "probe_finder \<Rightarrow> string option \<Rightarrow> probe_finder" where
  "set_tvar_type pf t = pf\<lparr>pf_tvar := (pf_tvar pf)\<lparr>targ_type := t\<rparr>\<rparr>"

definition convert_variable :: "env \<Rightarrow> die \<Rightarrow> probe_finder \<Rightarrow> world \<Rightarrow> (int \<times> probe_finder \<times> world) run" where
  "convert_variable e vr_die pf0 w0 =
     (case convert_variable_location e vr_die pf0 (pr Debug w0) of
        Fault \<Rightarrow> Fault
      | Done (ret, pf, w) \<Rightarrow>
          (case (case parg_field (pf_pvar pf) of
                   field # next \<Rightarrow>
                     if ret = 0 then
                       (case convert_variable_fields vr_die (parg_var (pf_pvar pf)) field next
                               (targ_ref (pf_tvar pf)) w of
                          Fault \<Rightarrow> Fault
                        | Done (ret1, refs, die_mem, w1) \<Rightarrow>
                            Done (ret1, pf\<lparr>pf_tvar := (pf_tvar pf)\<lparr>targ_ref := refs\<rparr>\<rparr>, die_mem, w1))
                     else Done (ret, pf, Some vr_die, w)
                 | [] \<Rightarrow> Done (ret, pf, Some vr_die, w)) of
             Fault \<Rightarrow> Fault
           | Done (ret, pf, vr_die1, w) \<Rightarrow>
               if ret = 0 then
                 (case parg_type (pf_pvar pf) of
                    Some t \<Rightarrow>
                      (case zalloc w of
                         None \<Rightarrow> Done (- ENOMEM, set_tvar_type pf None, w)
                       | Some w1 \<Rightarrow> Done (0, set_tvar_type pf (Some t), w1))
                  | None \<Rightarrow>
                      (case vr_die1 of
                         None \<Rightarrow> Fault
                       | Some d \<Rightarrow>
                           (case convert_variable_type d (pf_tvar pf) w of
                              (ret1, targ, w1) \<Rightarrow> Done (ret1, pf\<lparr>pf_tvar := targ\<rparr>, w1))))
               else Done (ret, pf, w)))"

text \<open>\<^verbatim>\<open>ptr = strchr(buf, ':'); if (ptr) *ptr = '_';\<close>\<close>

fun change_type_separator :: "string \<Rightarrow> string" where
  "change_type_separator [] = []"
| "change_type_separator (c # cs) =
     (if c = CHR '':'' then CHR ''_'' # cs else c # change_type_separator cs)"

definition find_variable :: "env \<Rightarrow> die \<Rightarrow> probe_finder \<Rightarrow> world \<Rightarrow> (int \<times> probe_finder \<times> world) run" where
  "find_variable e sp_die pf0 w0 =
     (let pvar = pf_pvar pf0;
          named =
            (case parg_name pvar of
               Some name \<Rightarrow> Inr name
             | None \<Rightarrow>
                 (case synthesize_perf_probe_arg e pvar of
                    (ret, buf) \<Rightarrow> if ret < 0 then Inl ret else Inr (change_type_separator buf)))
      in case named of
           Inl ret \<Rightarrow> Done (ret, pf0, w0)
         | Inr name \<Rightarrow>
             (case zalloc w0 of
                None \<Rightarrow> Done (- ENOMEM, pf0\<lparr>pf_tvar := (pf_tvar pf0)\<lparr>targ_name := None\<rparr>\<rparr>, w0)
              | Some w1 \<Rightarrow>
                  (let pf1 = pf0\<lparr>pf_tvar := (pf_tvar pf0)\<lparr>targ_name := Some name\<rparr>\<rparr> in
                   if \<not> is_c_varname e (parg_var pvar) then
                     (case zalloc w1 of
                        None \<Rightarrow> Done (- ENOMEM, pf1\<lparr>pf_tvar := (pf_tvar pf1)\<lparr>targ_value := None\<rparr>\<rparr>, w1)
                      | Some w2 \<Rightarrow>
                          Done (0, pf1\<lparr>pf_tvar := (pf_tvar pf1)\<lparr>targ_value := Some (parg_var pvar)\<rparr>\<rparr>, w2))
                   else
                     (let w2 = pr Debug w1;
                          found =
                            (case die_find_variable sp_die (parg_var pvar) of
                               Some vr_die \<Rightarrow> Some vr_die
                             | None \<Rightarrow> dwarf_getscopevar e sp_die (parg_var pvar))
                      in case (case found of
                                 Some vr_die \<Rightarrow> convert_variable e vr_die pf1 w2
                               | None \<Rightarrow> Done (- ENOENT, pf1, w2)) of
                           Fault \<Rightarrow> Fault
                         | Done (ret, pf2, w3) \<Rightarrow>
                             Done (ret, pf2, if ret < 0 then pr Warning w3 else w3)))))"

text \<open>A structure as \<^verbatim>\<open>zalloc\<close> returns it: every pointer \<^verbatim>\<open>NULL\<close>, every number 0.\<close>

definition zero_trace_arg :: kprobe_trace_arg where
  "zero_trace_arg = \<lparr>targ_name = None, targ_value = None, targ_type = None, targ_ref = []\<rparr>"

definition zero_trace_event :: kprobe_trace_event where
  "zero_trace_event = \<lparr>tev_symbol = None, tev_offset = 0, tev_nargs = 0, tev_args = []\<rparr>"

text \<open>
  The writes through \<^verbatim>\<open>tev\<close>, the event \<open>k\<close> of the array, and the copy of
  \<open>pf_tvar\<close> back to the place \<^verbatim>\<open>pf->tvar\<close> points to, argument \<open>i\<close> of that event.
\<close>

definition update_tev :: "nat \<Rightarrow> (kprobe_trace_event \<Rightarrow> kprobe_trace_event) \<Rightarrow> probe_finder \<Rightarrow> probe_finder" where
  "update_tev k f pf = pf\<lparr>pf_tevs := (pf_tevs pf)[k := f (pf_tevs pf ! k)]\<rparr>"

definition store_tvar :: "nat \<Rightarrow> nat \<Rightarrow> probe_finder \<Rightarrow> probe_finder" where
  "store_tvar k i pf = update_tev k (\<lambda>tev. tev\<lparr>tev_args := (tev_args tev)[i := pf_tvar pf]\<rparr>) pf"

text \<open>
  The loop \<^verbatim>\<open>for (i = 0; i < pf->pev->nargs; i++)\<close> of \<^verbatim>\<open>convert_probe_point\<close>,
  from argument \<open>i\<close> on; the list holds the arguments \<^verbatim>\<open>pev->args[i]\<close>, ... that
  are left.
\<close>

fun find_variables ::
  "env \<Rightarrow> die \<Rightarrow> nat \<Rightarrow> nat \<Rightarrow> perf_probe_arg list \<Rightarrow> probe_finder \<Rightarrow> world
     \<Rightarrow> (int \<times> probe_finder \<times> world) run" where
  "find_variables e sp_die k i [] pf w = Done (0, pf, w)"
| "find_variables e sp_die k i (pvar # rest) pf w =
     (case find_variable e sp_die (pf\<lparr>pf_pvar := pvar, pf_tvar := tev_args (pf_tevs pf ! k) ! i\<rparr>) w of
        Fault \<Rightarrow> Fault
      | Done (ret, pf1, w1) \<Rightarrow>
          if ret \<noteq> 0 then Done (ret, store_tvar k i pf1, w1)
          else find_variables e sp_die k (Suc i) rest (store_tvar k i pf1) w1)"

text \<open>
  The frame base of \<^verbatim>\<open>convert_probe_point\<close>: the new \<^verbatim>\<open>pf->fb_ops\<close>, or
  \<^const>\<open>None\<close> for the \<^verbatim>\<open>return -ENOENT\<close> when the CFA is not found.
\<close>

definition frame_base_ops :: "die \<Rightarrow> probe_finder \<Rightarrow> Dwarf_Op list option option" where
  "frame_base_ops sp_die pf =
     (case die_frame_base (attrs sp_die) (pf_addr pf) of
        None \<Rightarrow> Some None
      | Some [] \<Rightarrow> Some None
      | Some (opr # ops) \<Rightarrow>
          (case pf_cfi pf of
             Some cfi \<Rightarrow>
               if ops = [] \<and> atom opr = DW_OP_call_frame_cfa then
                 (case cfi (pf_addr pf) of
                    None \<Rightarrow> None
                  | Some cfa_ops \<Rightarrow> Some cfa_ops)
               else Some (Some (opr # ops))
           | None \<Rightarrow> Some (Some (opr # ops))))"

text \<open>
  \<^verbatim>\<open>convert_probe_point\<close>. \<^verbatim>\<open>tev = &pf->tevs[pf->ntevs++]\<close> is event \<open>k\<close>;
  \<open>pf_ntevs\<close> counts up from 0 and the array has \<^verbatim>\<open>max_tevs\<close> events, so \<open>k\<close>
  is inside the array in every run, and the model has \<open>Fault\<close> for a \<open>k\<close> outside.
  \<^verbatim>\<open>pev->nargs\<close> is the length of the list of arguments.
\<close>

definition convert_probe_point ::
  "env \<Rightarrow> die option \<Rightarrow> probe_finder \<Rightarrow> world \<Rightarrow> (int \<times> probe_finder \<times> world) run" where
  "convert_probe_point e sp_die0 pf0 w0 =
     (if pf_ntevs pf0 = pf_max_tevs pf0 then Done (- ERANGE, pf0, pr Warning w0)
      else if pf_ntevs pf0 < 0 \<or> int (length (pf_tevs pf0)) \<le> pf_ntevs pf0 then Fault
      else
        (let k = nat (pf_ntevs pf0);
             pf1 = pf0\<lparr>pf_ntevs := pf_ntevs pf0 + 1\<rparr>;
             real =
               (case sp_die0 of
                  None \<Rightarrow> die_find_real_subprogram (pf_cu_die pf1) (pf_addr pf1)
                | Some d \<Rightarrow>
                    if dwarf_tag d \<noteq> DW_TAG_subprogram
                    then die_find_real_subprogram (pf_cu_die pf1) (pf_addr pf1)
                    else Some d)
         in case real of
              None \<Rightarrow> Done (- ENOENT, pf1, pr Warning w0)
            | Some sp_die \<Rightarrow>
                (case (case dwarf_diename sp_die of
                         Some name \<Rightarrow>
                           (case dwarf_entrypc sp_die of
                              None \<Rightarrow> Inl (- ENOENT, pf1, pr Warning w0)
                            | Some eaddr \<Rightarrow>
                                (case zalloc w0 of
                                   None \<Rightarrow>
                                     Inl (- ENOMEM, update_tev k (\<lambda>tev. tev\<lparr>tev_symbol := None\<rparr>) pf1, w0)
                                 | Some w1 \<Rightarrow>
                                     Inr (update_tev k
                                            (\<lambda>tev. tev\<lparr>tev_symbol := Some name,
                                                        tev_offset := pf_addr pf1 - eaddr\<rparr>) pf1,
                                          w1)))
                       | None \<Rightarrow> Inr (update_tev k (\<lambda>tev. tev\<lparr>tev_offset := pf_addr pf1\<rparr>) pf1, w0)) of
                   Inl r \<Rightarrow> Done r
                 | Inr (pf2, w2) \<Rightarrow>
                     (let w3 = pr Debug w2 in
                      case frame_base_ops sp_die pf2 of
                        None \<Rightarrow>
                          Done (- ENOENT,
                                pf2\<lparr>pf_fb_ops := die_frame_base (attrs sp_die) (pf_addr pf2)\<rparr>,
                                pr Warning w3)
                      | Some fb_ops \<Rightarrow>
                          (let pf3 = pf2\<lparr>pf_fb_ops := fb_ops\<rparr>;
                               args = pev_args (pf_pev pf3);
                               pf4 = update_tev k (\<lambda>tev. tev\<lparr>tev_nargs := int (length args)\<rparr>) pf3
                           in case zalloc w3 of
                                None \<Rightarrow> Done (- ENOMEM, update_tev k (\<lambda>tev. tev\<lparr>tev_args := []\<rparr>) pf4, w3)
                              | Some w4 \<Rightarrow>
                                  (case find_variables e sp_die k 0 args
                                          (update_tev k
                                             (\<lambda>tev. tev\<lparr>tev_args := replicate (length args) zero_trace_arg\<rparr>)
                                             pf4)
                                          w4 of
                                     Fault \<Rightarrow> Fault
                                   | Done (ret, pf5, w5) \<Rightarrow>
                                       if ret \<noteq> 0 then Done (ret, pf5, w5)
                                       else Done (0, pf5\<lparr>pf_fb_ops := None\<rparr>, w5)))))))"

text \<open>
  The probe finder as \<^verbatim>\<open>find_kprobe_trace_events\<close> sets it up before it walks the
  CUs: \<^verbatim>\<open>struct probe_finder pf = {.pev = pev, .max_tevs = max_tevs}\<close>, the array of
  \<^verbatim>\<open>max_tevs\<close> zeroed events, no event found, the call frame information of
  \<^verbatim>\<open>dwarf_getcfi\<close> (\<^const>\<open>None\<close> when there is none, or in a build without
  \<^verbatim>\<open>_ELFUTILS_PREREQ(0, 142)\<close>), an empty line cache. The two argument pointers are
  not set yet; in the model they hold zeroed arguments until
  \<^verbatim>\<open>convert_probe_point\<close> sets them.
\<close>

definition probe_finder_init ::
  "perf_probe_event \<Rightarrow> int \<Rightarrow> (Dwarf_Addr \<Rightarrow> Dwarf_Op list option option) option \<Rightarrow> probe_finder" where
  "probe_finder_init pev max_tevs cfi =
     \<lparr>pf_pev = pev,
      pf_tevs = replicate (nat max_tevs) zero_trace_event,
      pf_ntevs = 0,
      pf_max_tevs = max_tevs,
      pf_lno = 0,
      pf_addr = 0,
      pf_fname = None,
      pf_cu_die = Die (no_attrs 0) None [],
      pf_lcache = [],
      pf_cfi = cfi,
      pf_fb_ops = None,
      pf_pvar = \<lparr>parg_name = None, parg_var = [], parg_type = None, parg_field = []\<rparr>,
      pf_tvar = zero_trace_arg\<rparr>"

subsection \<open>Reverse lookup\<close>

text \<open>
  A row of the line table as \<^verbatim>\<open>dwarf_lineaddr\<close>, \<^verbatim>\<open>dwarf_lineno\<close> and
  \<^verbatim>\<open>dwarf_linesrc\<close> read it, and the debug information of a file as the two
  lookups by address answer: \<^verbatim>\<open>dwarf_addrdie\<close> (the DIE of the CU) and
  \<^verbatim>\<open>dwarf_getsrc_die\<close> (a row of the line table of the CU). Line numbers are
  \<^verbatim>\<open>int\<close>, as \<^verbatim>\<open>dwarf_lineno\<close> and \<^verbatim>\<open>dwarf_decl_line\<close> store them and as
  \<^verbatim>\<open>ppt->line\<close> is declared.
\<close>

record Dwarf_Line =
  dwarf_lineaddr :: "Dwarf_Addr option"
  dwarf_lineno :: "c_int option"
  dwarf_linesrc :: "string option"

record Dwarf =
  dwarf_addrdie :: "Dwarf_Addr \<Rightarrow> die option"
  dwarf_getsrc_die :: "die \<Rightarrow> Dwarf_Addr \<Rightarrow> Dwarf_Line option"

text \<open>
  The first part of \<^verbatim>\<open>find_perf_probe_point\<close>, "Find a corresponding line": the
  point, \<^verbatim>\<open>found\<close> and the world, or the \<^verbatim>\<open>goto end\<close> with \<^verbatim>\<open>-ENOMEM\<close>.
\<close>

definition find_line ::
  "Dwarf \<Rightarrow> die \<Rightarrow> Dwarf_Addr \<Rightarrow> perf_probe_point \<Rightarrow> world
     \<Rightarrow> (perf_probe_point \<times> world) + (perf_probe_point \<times> bool \<times> world)" where
  "find_line dbg cudie addr ppt w =
     (case dwarf_getsrc_die dbg cudie addr of
        None \<Rightarrow> Inr (ppt, False, w)
      | Some line \<Rightarrow>
          (case (dwarf_lineaddr line, dwarf_lineno line, dwarf_linesrc line) of
             (Some laddr, Some lineno, Some tmp) \<Rightarrow>
               if addr = laddr then
                 (case zalloc w of
                    None \<Rightarrow> Inl (ppt\<lparr>pp_line := lineno, pp_file := None\<rparr>, w)
                  | Some w1 \<Rightarrow> Inr (ppt\<lparr>pp_line := lineno, pp_file := Some tmp\<rparr>, True, w1))
               else Inr (ppt, False, w)
           | _ \<Rightarrow> Inr (ppt, False, w)))"

text \<open>
  The block \<^verbatim>\<open>if (ppt->line) { ... }\<close>: the name \<^verbatim>\<open>tmp\<close> and the value of
  \<^verbatim>\<open>ret\<close> after it with the line number to subtract when \<^verbatim>\<open>ret\<close> is 0;
  \<^const>\<open>None\<close> for the \<^verbatim>\<open>goto end\<close> of an inline instance without a name.
  \<^verbatim>\<open>dwarf_decl_line\<close> returns -1 when it fails.
\<close>

definition relative_line ::
  "die \<Rightarrow> string \<Rightarrow> Dwarf_Addr \<Rightarrow> Dwarf_Addr \<Rightarrow> perf_probe_point \<Rightarrow> (string \<times> int \<times> c_int option) option" where
  "relative_line spdie tmp eaddr addr ppt =
     (case die_find_inlinefunc spdie addr of
        Some indie \<Rightarrow>
          (case dwarf_diename indie of
             None \<Rightarrow> None
           | Some tmp1 \<Rightarrow>
               (case dwarf_decl_line indie of
                  None \<Rightarrow> Some (tmp1, - 1, None)
                | Some lineno \<Rightarrow> Some (tmp1, 0, Some lineno)))
      | None \<Rightarrow>
          if eaddr = addr then Some (tmp, 0, Some (pp_line ppt))
          else
            (case dwarf_decl_line spdie of
               None \<Rightarrow> Some (tmp, - 1, None)
             | Some lineno \<Rightarrow> Some (tmp, 0, Some lineno)))"

text \<open>
  \<^verbatim>\<open>find_perf_probe_point\<close>; \<open>dbg\<close> is what \<^verbatim>\<open>dwarf_begin\<close> returns.
  \<open>finish\<close> is the label \<^verbatim>\<open>end\<close>. \<^verbatim>\<open>ppt->line -= lineno\<close> is a subtraction of
  \<^verbatim>\<open>int\<close>: it wraps around at 32 bits.
\<close>

definition finish :: "int \<Rightarrow> bool \<Rightarrow> int" where
  "finish ret found = (if ret \<ge> 0 then (if found then 1 else 0) else ret)"

definition find_perf_probe_point ::
  "Dwarf option \<Rightarrow> Dwarf_Addr \<Rightarrow> perf_probe_point \<Rightarrow> world \<Rightarrow> int \<times> perf_probe_point \<times> world" where
  "find_perf_probe_point dbg0 addr ppt0 w0 =
     (case dbg0 of
        None \<Rightarrow> (- EBADF, ppt0, w0)
      | Some dbg \<Rightarrow>
          (case dwarf_addrdie dbg addr of
             None \<Rightarrow> (finish (- EINVAL) False, ppt0, w0)
           | Some cudie \<Rightarrow>
               (case find_line dbg cudie addr ppt0 w0 of
                  Inl (ppt, w) \<Rightarrow> (finish (- ENOMEM) False, ppt, w)
                | Inr (ppt, found, w) \<Rightarrow>
                    (case die_find_real_subprogram cudie addr of
                       None \<Rightarrow> (finish 0 found, ppt, w)
                     | Some spdie \<Rightarrow>
                         (case (dwarf_diename spdie, dwarf_entrypc spdie) of
                            (Some tmp, Some eaddr) \<Rightarrow>
                              (case (if pp_line ppt \<noteq> 0
                                     then relative_line spdie tmp eaddr addr ppt
                                     else Some (tmp, 0, None)) of
                                 None \<Rightarrow> (finish 0 found, ppt, w)
                               | Some (tmp1, ret, lineno) \<Rightarrow>
                                   (let ppt1 =
                                          (case lineno of
                                             Some n \<Rightarrow> ppt\<lparr>pp_line := pp_line ppt - n\<rparr>
                                           | None \<Rightarrow> ppt\<lparr>pp_offset := addr - eaddr\<rparr>)
                                    in case zalloc w of
                                         None \<Rightarrow>
                                           (finish (- ENOMEM) found, ppt1\<lparr>pp_function := None\<rparr>, w)
                                       | Some w1 \<Rightarrow>
                                           (finish ret True, ppt1\<lparr>pp_function := Some tmp1\<rparr>, w1)))
                          | _ \<Rightarrow> (finish 0 found, ppt, w))))))"

text \<open>
  The relative line as the specification words it: the found line minus the declaration
  line of the anchor, "the covering inline instance if one exists and otherwise the outer
  subprogram".
\<close>

definition spec_relative_line :: "die \<Rightarrow> Dwarf_Addr \<Rightarrow> c_int \<Rightarrow> c_int option" where
  "spec_relative_line spdie addr found_line =
     (case die_find_inlinefunc spdie addr of
        Some indie \<Rightarrow> map_option (\<lambda>d. found_line - d) (dwarf_decl_line indie)
      | None \<Rightarrow> map_option (\<lambda>d. found_line - d) (dwarf_decl_line spdie))"

subsection \<open>Concrete inputs\<close>

text \<open>
  A small architecture and front end for the concrete runs below: registers 0, 6 and 7
  have names, a C variable name starts with a letter or an underscore, and an argument
  without a name is called by its variable.
\<close>

definition example_env :: env where
  "example_env =
     \<lparr>get_arch_regstr =
        (\<lambda>n. if n = 0 then Some ''%ax'' else if n = 6 then Some ''%bp''
              else if n = 7 then Some ''%sp'' else None),
      is_c_varname = (\<lambda>s. case s of [] \<Rightarrow> False | c # _ \<Rightarrow> c \<notin> set ''$%@0123456789''),
      synthesize_perf_probe_arg = (\<lambda>a. (int (length (parg_var a)), parg_var a)),
      dwarf_getscopevar = (\<lambda>d name. None)\<rparr>"

text \<open>The type \<^verbatim>\<open>int\<close>, and a structure of three bytes.\<close>

definition int_die :: die where
  "int_die =
     Die ((no_attrs 0x24)\<lparr>die_name := Some ''int'', die_byte_size := Some 4,
                           die_encoding := Some DW_ATE_signed\<rparr>) None []"

definition rgb_die :: die where
  "rgb_die =
     Die ((no_attrs DW_TAG_structure_type)\<lparr>die_name := Some ''rgb'', die_byte_size := Some 3\<rparr>)
       None []"

text \<open>
  A local variable \<^verbatim>\<open>int buf[4]\<close> that lives in register 0 (\<^verbatim>\<open>DW_OP_reg0\<close>), the
  function \<^verbatim>\<open>fill\<close> that declares it, and the request for \<^verbatim>\<open>buf[1]\<close> at the
  entry of \<^verbatim>\<open>fill\<close>.
\<close>

definition buf_die :: die where
  "buf_die =
     Die ((no_attrs DW_TAG_variable)
            \<lparr>die_name := Some ''buf'',
             die_location := (\<lambda>pc. Some [\<lparr>atom = DW_OP_reg0, number = 0, number2 = 0\<rparr>])\<rparr>)
       (Some (Die (no_attrs DW_TAG_array_type) (Some int_die) []))
       []"

definition fill_die :: die where
  "fill_die =
     Die ((no_attrs DW_TAG_subprogram)
            \<lparr>die_name := Some ''fill'', die_entrypc := Some 0x1000,
             die_haspc := (\<lambda>pc. if 0x1000 \<le> pc \<and> pc < 0x1040 then 1 else 0),
             die_decl_line := Some 10\<rparr>)
       None [buf_die]"

definition buf_1_event :: perf_probe_event where
  "buf_1_event =
     \<lparr>pev_point = \<lparr>pp_file = None, pp_function = Some ''fill'', pp_line = 0, pp_offset = 0,
                    pp_lazy_line = None\<rparr>,
      pev_args = [\<lparr>parg_name = None, parg_var = ''buf'', parg_type = None,
                   parg_field = [\<lparr>field_name = ''[1]'', field_index = 1, field_ref = False\<rparr>]\<rparr>]\<rparr>"

text \<open>The same function asked for no argument at all.\<close>

definition fill_event :: perf_probe_event where
  "fill_event =
     \<lparr>pev_point = \<lparr>pp_file = None, pp_function = Some ''fill'', pp_line = 0, pp_offset = 0,
                    pp_lazy_line = None\<rparr>,
      pev_args = []\<rparr>"

text \<open>A local variable \<^verbatim>\<open>int count\<close> at \<^verbatim>\<open>DW_OP_fbreg -20\<close>.\<close>

definition count_die :: die where
  "count_die =
     Die ((no_attrs DW_TAG_variable)
            \<lparr>die_name := Some ''count'',
             die_location := (\<lambda>pc. Some [\<lparr>atom = DW_OP_fbreg, number = - 20, number2 = 0\<rparr>])\<rparr>)
       (Some int_die) []"

text \<open>
  The type tags of the specification: "one of \<^verbatim>\<open>s8 s16 s32 s64 u8 u16 u32 u64\<close>".
\<close>

definition basic_type_tags :: "string set" where
  "basic_type_tags = {''s8'', ''s16'', ''s32'', ''s64'', ''u8'', ''u16'', ''u32'', ''u64''}"

text \<open>An integer type of 16 bytes.\<close>

definition int128_die :: die where
  "int128_die =
     Die ((no_attrs 0x24)\<lparr>die_name := Some ''__int128'', die_byte_size := Some 16,
                           die_encoding := Some DW_ATE_signed\<rparr>) None []"

text \<open>
  A second function \<^verbatim>\<open>copy\<close>, declared in line 30, whose code starts with an inlined
  call of \<^verbatim>\<open>clear\<close> (declared in line 3); the CU of both functions; and debug
  information whose line table has a row for the entry of \<^verbatim>\<open>fill\<close> (line 12), for
  an address inside \<^verbatim>\<open>fill\<close> (line 15) and for the entry of \<^verbatim>\<open>copy\<close> (line 31).
\<close>

definition clear_inlined_die :: die where
  "clear_inlined_die =
     Die ((no_attrs DW_TAG_inlined_subroutine)
            \<lparr>die_name := Some ''clear'', die_entrypc := Some 0x2000,
             die_haspc := (\<lambda>pc. if 0x2000 \<le> pc \<and> pc < 0x2010 then 1 else 0),
             die_decl_line := Some 3\<rparr>)
       None []"

definition copy_die :: die where
  "copy_die =
     Die ((no_attrs DW_TAG_subprogram)
            \<lparr>die_name := Some ''copy'', die_entrypc := Some 0x2000,
             die_haspc := (\<lambda>pc. if 0x2000 \<le> pc \<and> pc < 0x2040 then 1 else 0),
             die_decl_line := Some 30\<rparr>)
       None [clear_inlined_die]"

definition example_cu :: die where
  "example_cu = Die (no_attrs 0x11) None [fill_die, copy_die]"

definition example_line :: "Dwarf_Addr \<Rightarrow> c_int \<Rightarrow> Dwarf_Line" where
  "example_line a n =
     \<lparr>dwarf_lineaddr = Some a, dwarf_lineno = Some n, dwarf_linesrc = Some ''lib/fill.c''\<rparr>"

definition example_dwarf :: Dwarf where
  "example_dwarf =
     \<lparr>dwarf_addrdie = (\<lambda>a. if 0x1000 \<le> a \<and> a < 0x2040 then Some example_cu else None),
      dwarf_getsrc_die =
        (\<lambda>cu a. if a = 0x1000 then Some (example_line 0x1000 12)
                 else if a = 0x1010 then Some (example_line 0x1010 15)
                 else if a = 0x2000 then Some (example_line 0x2000 31)
                 else if a = 0x1030 then Some (example_line 0x1030 0x80000000)
                 else None)\<rparr>"

definition zero_probe_point :: perf_probe_point where
  "zero_probe_point =
     \<lparr>pp_file = None, pp_function = None, pp_line = 0, pp_offset = 0, pp_lazy_line = None\<rparr>"

section \<open>Properties\<close>

subsection \<open>Tail matching\<close>

lemma c_char_inj: "c_char c = c_char d \<longleftrightarrow> c = d"
proof
  assume eq: "c_char c = c_char d"
  define n m :: nat where "n = of_char c" and "m = of_char d"
  have "n < 256" "m < 256" by (simp_all add: n_def m_def)
  moreover from eq have "(if int n < 128 then int n else int n - 256)
                       = (if int m < 128 then int m else int m - 256)"
    unfolding c_char_def Let_def n_def m_def .
  ultimately have "n = m" by (auto split: if_splits)
  then show "c = d" by (simp add: n_def m_def)
qed simp

lemma strtailcmp_loop_suffix:
  "strtailcmp_loop (a @ x) (b @ y) (length a) (length b) = 0 \<longleftrightarrow> suffix a b \<or> suffix b a"
proof (induction a arbitrary: b x y rule: rev_induct)
  case Nil
  then show ?case by simp
next
  case (snoc c a')
  show ?case
  proof (cases b rule: rev_cases)
    case Nil
    then show ?thesis by simp
  next
    case (snoc b' d)
    have "strtailcmp_loop (a' @ ([c] @ x)) (b' @ ([d] @ y)) (length a') (length b') = 0
          \<longleftrightarrow> suffix a' b' \<or> suffix b' a'"
      by (rule snoc.IH)
    then show ?thesis using snoc
      by (auto simp: c_char_inj nth_append)
  qed
qed

lemma path_components_nonempty: "path_components s \<noteq> []"
  by (induction s) (auto split: list.splits)

lemma join_path_components: "join_path (path_components s) = s"
proof (induction s)
  case Nil
  then show ?case by simp
next
  case (Cons c cs)
  obtain w ws where pc: "path_components cs = w # ws"
    using path_components_nonempty [of cs] by (cases "path_components cs") auto
  with Cons show ?case by (cases ws) auto
qed

lemma join_path_append:
  "xs \<noteq> [] \<Longrightarrow> ys \<noteq> [] \<Longrightarrow> join_path (xs @ ys) = join_path xs @ CHR ''/'' # join_path ys"
proof (induction xs rule: join_path.induct)
  case 1
  then show ?case by simp
next
  case (2 w)
  then show ?case by (cases ys) auto
next
  case (3 w v ws)
  then show ?case by simp
qed

lemma component_suffix_is_suffix:
  assumes "suffix (path_components a) (path_components b)"
  shows "suffix a b"
proof -
  from assms obtain pre where b: "path_components b = pre @ path_components a"
    by (auto simp: suffix_def)
  show ?thesis
  proof (cases pre)
    case Nil
    with b have "join_path (path_components b) = join_path (path_components a)" by simp
    then have "a = b" by (simp only: join_path_components)
    then show ?thesis by simp
  next
    case (Cons p ps)
    then have "pre \<noteq> []" by simp
    from join_path_append [OF this path_components_nonempty [of a]] b
    have "join_path (path_components b) = join_path pre @ CHR ''/'' # join_path (path_components a)"
      by simp
    then have "b = (join_path pre @ ''/'') @ a" by (simp only: join_path_components) simp
    then show ?thesis unfolding suffix_def by blast
  qed
qed

text \<open>
  C5, as the code has it: \<^const>\<open>strtailcmp\<close> returns 0 exactly when one of the two
  strings is a suffix of the other, character by character. Nothing in the comparison
  looks at \<^verbatim>\<open>/\<close>, so the match may start in the middle of a path component. One
  half of the claim stands: two paths of which one is a suffix of the other component by
  component do match.
\<close>

theorem strtailcmp_zero_iff_suffix:
  "(strtailcmp s1 s2 = 0 \<longleftrightarrow> suffix s1 s2 \<or> suffix s2 s1)
   \<and> (component_tail_match s1 s2 \<longrightarrow> strtailcmp s1 s2 = 0)"
proof -
  have eq: "strtailcmp s1 s2 = 0 \<longleftrightarrow> suffix s1 s2 \<or> suffix s2 s1"
    using strtailcmp_loop_suffix [of s1 "[]" s2 "[]"] by (simp add: strtailcmp_def)
  moreover have "suffix s1 s2 \<or> suffix s2 s1" if "component_tail_match s1 s2"
    using that component_suffix_is_suffix unfolding component_tail_match_def by blast
  ultimately show ?thesis by blast
qed

theorem strtailcmp_witness:
  "component_tail_match ''kernel/sched.c'' ''sched.c''
   \<and> strtailcmp ''kernel/sched.c'' ''sched.c'' = 0
   \<and> strtailcmp ''mm/slub.c'' ''sched.c'' \<noteq> 0"
proof -
  have c: "component_tail_match ''kernel/sched.c'' ''sched.c''"
    by (simp add: component_tail_match_def suffix_Cons)
  have n: "\<not> (suffix ''mm/slub.c'' ''sched.c'' \<or> suffix ''sched.c'' ''mm/slub.c'')"
    by (simp add: suffix_Cons)
  from strtailcmp_zero_iff_suffix [of "''kernel/sched.c''" "''sched.c''"]
       strtailcmp_zero_iff_suffix [of "''mm/slub.c''" "''sched.c''"] c n
  show ?thesis by blast
qed

text \<open>
  C5 as stated fails: \<^verbatim>\<open>bar.c\<close> tail-matches \<^verbatim>\<open>foobar.c\<close>, although neither
  path is a suffix of the other when both are read as lists of path components.
\<close>

theorem strtailcmp_splits_component:
  "strtailcmp ''foobar.c'' ''bar.c'' = 0 \<and> \<not> component_tail_match ''foobar.c'' ''bar.c''"
  by (simp add: strtailcmp_def component_tail_match_def suffix_Cons)

subsection \<open>The line number list\<close>

lemma line_list_pos_After:
  "line_list_pos xs line = After k \<Longrightarrow>
     k \<le> length xs \<and> (\<forall>x\<in>set (take (length xs - k) xs). line < x)
     \<and> (k = 0 \<or> xs ! (length xs - k) < line)"
proof (induction xs)
  case Nil
  then show ?case by simp
next
  case (Cons a xs)
  show ?case
  proof (cases "a < line")
    case True
    with Cons.prems show ?thesis by auto
  next
    case False
    with Cons.prems have neq: "a \<noteq> line" and rec: "line_list_pos xs line = After k"
      by (auto split: if_splits)
    from Cons.IH [OF rec] have k: "k \<le> length xs"
      and gt: "\<forall>x\<in>set (take (length xs - k) xs). line < x"
      and at: "k = 0 \<or> xs ! (length xs - k) < line" by simp_all
    from k have eq: "Suc (length xs) - k = Suc (length xs - k)" by simp
    show ?thesis using False neq k gt at by (auto simp: eq)
  qed
qed

lemma line_list_pos_Already_intro:
  "\<forall>x\<in>set ys. line < x \<Longrightarrow> line_list_pos (ys @ line # zs) line = Already"
  by (induction ys) auto

lemma add_line_again:
  assumes "line_list__add_line head line w = (0, head', w')"
  shows "line_list__add_line head' line w'' = (1, head', w'')"
proof -
  from assms obtain k where pos: "line_list_pos (rev head) line = After k"
    and head': "head' = take k head @ line # drop k head"
    by (auto simp: line_list__add_line_def Let_def ENOMEM_def split: line_pos.splits option.splits)
  from line_list_pos_After [OF pos] have k: "k \<le> length head"
    and gt: "\<forall>x\<in>set (take (length head - k) (rev head)). line < x" by simp_all
  have "rev head' = rev (drop k head) @ line # rev (take k head)"
    by (simp add: head')
  moreover have "rev (drop k head) = take (length head - k) (rev head)"
    using k by (simp add: take_rev)
  ultimately have "line_list_pos (rev head') line = Already"
    using gt line_list_pos_Already_intro by simp
  then show ?thesis by (simp add: line_list__add_line_def)
qed

lemma sorted_desc_after:
  "sorted_wrt (>) xs \<Longrightarrow> line_list_pos xs line = After k \<Longrightarrow>
     \<forall>x\<in>set (drop (length xs - k) xs). x < line"
proof (induction xs)
  case Nil
  then show ?case by simp
next
  case (Cons a xs)
  show ?case
  proof (cases "a < line")
    case True
    with Cons.prems show ?thesis by auto
  next
    case False
    with Cons.prems have rec: "line_list_pos xs line = After k"
      by (auto split: if_splits)
    from line_list_pos_After [OF rec] have k: "k \<le> length xs" by simp
    then have eq: "Suc (length xs) - k = Suc (length xs - k)" by simp
    from Cons.IH [OF _ rec] Cons.prems(1) show ?thesis by (simp add: eq)
  qed
qed

lemma add_line_sorted:
  assumes srt: "sorted_wrt (<) head"
    and add: "line_list__add_line head line w = (r, head', w')"
  shows "sorted_wrt (<) head'"
proof (cases "line_list_pos (rev head) line")
  case Already
  with add have "head' = head" by (simp add: line_list__add_line_def)
  with srt show ?thesis by simp
next
  case (After k)
  show ?thesis
  proof (cases "r = 0")
    case False
    with add After have "head' = head"
      by (auto simp: line_list__add_line_def Let_def ENOMEM_def split: option.splits)
    with srt show ?thesis by simp
  next
    case True
    with add After have head': "head' = take k head @ line # drop k head"
      by (auto simp: line_list__add_line_def Let_def ENOMEM_def split: option.splits)
    from srt have desc: "sorted_wrt (>) (rev head)"
      by (simp add: sorted_wrt_rev)
    from line_list_pos_After [OF After] have k: "k \<le> length head"
      and gt: "\<forall>x\<in>set (take (length head - k) (rev head)). line < x" by simp_all
    from sorted_desc_after [OF desc After]
    have lt: "\<forall>x\<in>set (drop (length head - k) (rev head)). x < line" by simp
    have tk: "set (take k head) = set (drop (length head - k) (rev head))"
      using k by (simp add: drop_rev)
    have dr: "set (drop k head) = set (take (length head - k) (rev head))"
      using k by (simp add: take_rev)
    have "sorted_wrt (<) (take k head @ drop k head)" using srt by simp
    then have "sorted_wrt (<) (take k head)" "sorted_wrt (<) (drop k head)"
      "\<forall>x\<in>set (take k head). \<forall>y\<in>set (drop k head). x < y"
      unfolding sorted_wrt_append by auto
    then show ?thesis using gt lt tk dr
      unfolding head' sorted_wrt_append by auto
  qed
qed

lemma line_list_pos_Already:
  "line_list_pos xs n = Already \<Longrightarrow> n \<in> set xs"
  by (induction xs) (auto split: if_splits)

lemma add_line_reports:
  assumes srt: "sorted_wrt (<) head"
    and add: "line_list__add_line head n w = (r, head', w')"
  shows "r = 1 \<longleftrightarrow> n \<in> set head"
proof (cases "line_list_pos (rev head) n")
  case Already
  from line_list_pos_Already [OF this] have "n \<in> set head" by simp
  with Already add show ?thesis by (simp add: line_list__add_line_def)
next
  case (After k)
  from srt have desc: "sorted_wrt (>) (rev head)"
    by (simp add: sorted_wrt_rev)
  from line_list_pos_After [OF After]
  have gt: "\<forall>x\<in>set (take (length head - k) (rev head)). n < x" by simp
  from sorted_desc_after [OF desc After]
  have lt: "\<forall>x\<in>set (drop (length head - k) (rev head)). x < n" by simp
  have "set (rev head) = set (take (length head - k) (rev head))
                         \<union> set (drop (length head - k) (rev head))"
    by (simp only: set_append [symmetric] append_take_drop_id)
  with gt lt have "n \<notin> set (rev head)" by auto
  moreover from After add have "r \<noteq> 1"
    by (auto simp: line_list__add_line_def Let_def ENOMEM_def split: option.splits)
  ultimately show ?thesis by simp
qed

text \<open>
  C6: \<^const>\<open>line_list__add_line\<close> keeps an ascending list ascending, and so free of
  duplicates (the order is strict); on an ascending list it returns 1 ("Already exist")
  exactly for a line that is in the list. After an add that returned 0 the line is in the
  list, and adding it again returns 1 and leaves the list as it is, whatever the list was.
  Any other return value (1, or \<^verbatim>\<open>-ENOMEM\<close>) leaves the list unchanged.
\<close>

theorem line_list__add_line_ascending_idempotent:
  assumes "line_list__add_line head n w = (r, head', w')"
  shows "(sorted_wrt (<) head \<longrightarrow> sorted_wrt (<) head' \<and> (r = 1 \<longleftrightarrow> n \<in> set head))
         \<and> (r = 0 \<longrightarrow> set head' = insert n (set head)
                      \<and> line_list__add_line head' n w'' = (1, head', w''))
         \<and> (r \<noteq> 0 \<longrightarrow> head' = head)"
proof -
  have a: "sorted_wrt (<) head \<longrightarrow> sorted_wrt (<) head' \<and> (r = 1 \<longleftrightarrow> n \<in> set head)"
    using add_line_sorted add_line_reports assms by blast
  have b: "r = 0 \<longrightarrow> line_list__add_line head' n w'' = (1, head', w'')"
    using add_line_again assms by blast
  have c: "r = 0 \<longrightarrow> set head' = insert n (set head)"
  proof
    assume "r = 0"
    with assms obtain k where "head' = take k head @ n # drop k head"
      by (auto simp: line_list__add_line_def Let_def ENOMEM_def split: line_pos.splits option.splits)
    then have "set head' = insert n (set (take k head) \<union> set (drop k head))" by simp
    also have "set (take k head) \<union> set (drop k head) = set head"
      by (metis append_take_drop_id set_append)
    finally show "set head' = insert n (set head)" .
  qed
  have d: "r \<noteq> 0 \<longrightarrow> head' = head"
    using assms
    by (auto simp: line_list__add_line_def Let_def split: line_pos.splits option.splits)
  from a b c d show ?thesis by blast
qed

theorem line_list__add_line_witness:
  "line_list__add_line [1, 3, 7] 5 \<lparr>mem = 1, log = []\<rparr> = (0, [1, 3, 5, 7], \<lparr>mem = 0, log = [Debug]\<rparr>)
   \<and> sorted_wrt (<) [1, 3, 7 :: int] \<and> sorted_wrt (<) [1, 3, 5, 7 :: int]
   \<and> line_list__add_line [1, 3, 5, 7] 5 \<lparr>mem = 0, log = [Debug]\<rparr>
       = (1, [1, 3, 5, 7], \<lparr>mem = 0, log = [Debug]\<rparr>)
   \<and> line_list__add_line [1, 3, 5, 7] 4 \<lparr>mem = 0, log = [Debug]\<rparr>
       = (- ENOMEM, [1, 3, 5, 7], \<lparr>mem = 0, log = [Debug, Debug]\<rparr>)"
proof -
  have run: "line_list__add_line [1, 3, 7] 5 \<lparr>mem = 1, log = []\<rparr>
             = (0, [1, 3, 5, 7], \<lparr>mem = 0, log = [Debug]\<rparr>)"
    by (simp add: line_list__add_line_def zalloc_def pr_def)
  have oom: "\<exists>r h. line_list__add_line [1, 3, 5, 7] 4 \<lparr>mem = 0, log = [Debug]\<rparr>
             = (r, h, \<lparr>mem = 0, log = [Debug, Debug]\<rparr>) \<and> r = - ENOMEM"
    by (simp add: line_list__add_line_def zalloc_def pr_def)
  then obtain h where oom': "line_list__add_line [1, 3, 5, 7] 4 \<lparr>mem = 0, log = [Debug]\<rparr>
             = (- ENOMEM, h, \<lparr>mem = 0, log = [Debug, Debug]\<rparr>)" by blast
  from line_list__add_line_ascending_idempotent [OF oom']
  have "h = [1, 3, 5, 7]" by (simp add: ENOMEM_def)
  with oom' line_list__add_line_ascending_idempotent [OF run, of "\<lparr>mem = 0, log = [Debug]\<rparr>"] run
  show ?thesis by simp
qed

subsection \<open>Path resolution\<close>

lemma strchr_split:
  "strchr s c = Some r \<Longrightarrow> \<exists>pre. s = pre @ r \<and> c \<notin> set pre \<and> r \<noteq> [] \<and> hd r = c"
proof (induction s)
  case Nil
  then show ?case by simp
next
  case (Cons x xs)
  show ?case
  proof (cases "x = c")
    case True
    with Cons.prems have "r = x # xs" by simp
    with True show ?thesis by (intro exI [of _ "[]"]) simp
  next
    case False
    with Cons.prems have "strchr xs c = Some r" by simp
    from Cons.IH [OF this] obtain pre where "xs = pre @ r" "c \<notin> set pre" "r \<noteq> []" "hd r = c" by blast
    with False show ?thesis by (intro exI [of _ "x # pre"]) simp
  qed
qed

lemma next_raw_path_shorter:
  assumes "next_raw_path raw = Done (Some raw')"
  shows "length raw' < length raw
         \<and> (\<exists>c comp. raw = c # comp @ raw' \<and> CHR ''/'' \<notin> set comp \<and> raw' \<noteq> [] \<and> hd raw' = CHR ''/'')"
proof -
  from assms obtain c rest where raw: "raw = c # rest" and s: "strchr rest CHR ''/'' = Some raw'"
    by (auto simp: next_raw_path_def split: list.splits)
  from strchr_split [OF s] obtain comp where "rest = comp @ raw'" "CHR ''/'' \<notin> set comp"
    "raw' \<noteq> []" "hd raw' = CHR ''/''" by blast
  with raw show ?thesis by auto
qed

lemma get_real_path_loop_returns:
  "\<exists>r. get_real_path_loop acc pre raw = Some r
       \<and> (raw \<noteq> [] \<longrightarrow> (\<exists>ret np. r = Done (ret, np)))"
proof (induction "length raw" arbitrary: raw rule: less_induct)
  case less
  let ?errno = "acc (pre @ ''/'' @ raw)"
  show ?case
  proof (cases "?errno \<noteq> 0 \<and> retry_errno ?errno")
    case False
    then show ?thesis
      by (subst get_real_path_loop.simps) (auto simp: Let_def)
  next
    case retry: True
    show ?thesis
    proof (cases "next_raw_path raw")
      case Fault
      then have "raw = []" by (auto simp: next_raw_path_def split: list.splits)
      with retry Fault show ?thesis
        by (subst get_real_path_loop.simps) (auto simp: Let_def)
    next
      case (Done x)
      show ?thesis
      proof (cases x)
        case None
        with retry Done show ?thesis
          by (subst get_real_path_loop.simps) (auto simp: Let_def)
      next
        case (Some raw')
        with Done next_raw_path_shorter [of raw raw']
        have lt: "length raw' < length raw" and ne: "raw' \<noteq> []" by auto
        from less [OF lt] ne obtain ret np where
          "get_real_path_loop acc pre raw' = Some (Done (ret, np))" by auto
        with retry Done Some show ?thesis
          by (subst get_real_path_loop.simps) (auto simp: Let_def)
      qed
    qed
  qed
qed

text \<open>
  C8: with a source prefix, \<^const>\<open>get_real_path\<close> returns on every input. A retry is
  taken only for the four \<^const>\<open>retry_errno\<close> values; it cuts the first character and
  the rest of the leading path component off the suffix, which is strictly shorter
  afterwards and starts with \<^verbatim>\<open>/\<close>, and runs the loop on it. When no \<^verbatim>\<open>/\<close>
  is left the result is \<^verbatim>\<open>-ENOENT\<close>; any other \<^verbatim>\<open>errno\<close> is returned at once.
  On a non-empty raw path no access outside the string happens.
\<close>

theorem get_real_path_terminates:
  "(\<exists>r. get_real_path acc (Some pre) raw w = Some r)
   \<and> (\<exists>r. get_real_path_loop acc pre raw = Some r
          \<and> (raw \<noteq> [] \<longrightarrow> (\<exists>ret np. r = Done (ret, np))))
   \<and> (\<forall>raw'. next_raw_path raw = Done (Some raw') \<longrightarrow>
         length raw' < length raw
         \<and> (\<exists>c comp. raw = c # comp @ raw' \<and> CHR ''/'' \<notin> set comp \<and> raw' \<noteq> [] \<and> hd raw' = CHR ''/''))
   \<and> (\<forall>raw'. retry_errno (acc (pre @ ''/'' @ raw)) \<and> next_raw_path raw = Done (Some raw') \<longrightarrow>
         get_real_path_loop acc pre raw = get_real_path_loop acc pre raw')
   \<and> (retry_errno (acc (pre @ ''/'' @ raw)) \<and> next_raw_path raw = Done None \<longrightarrow>
         get_real_path_loop acc pre raw = Some (Done (- ENOENT, None)))
   \<and> (acc (pre @ ''/'' @ raw) \<noteq> 0 \<and> \<not> retry_errno (acc (pre @ ''/'' @ raw)) \<longrightarrow>
         get_real_path_loop acc pre raw = Some (Done (- acc (pre @ ''/'' @ raw), None)))"
proof -
  have ret: "\<exists>r. get_real_path_loop acc pre raw = Some r
          \<and> (raw \<noteq> [] \<longrightarrow> (\<exists>ret np. r = Done (ret, np)))"
    by (rule get_real_path_loop_returns)
  then have "\<exists>r. get_real_path acc (Some pre) raw w = Some r"
    by (auto simp: get_real_path_def split: option.splits)
  moreover have "\<forall>raw'. next_raw_path raw = Done (Some raw') \<longrightarrow>
         length raw' < length raw
         \<and> (\<exists>c comp. raw = c # comp @ raw' \<and> CHR ''/'' \<notin> set comp \<and> raw' \<noteq> [] \<and> hd raw' = CHR ''/'')"
    using next_raw_path_shorter by blast
  moreover have "\<forall>raw'. retry_errno (acc (pre @ ''/'' @ raw)) \<and> next_raw_path raw = Done (Some raw') \<longrightarrow>
         get_real_path_loop acc pre raw = get_real_path_loop acc pre raw'"
    by (subst get_real_path_loop.simps)
       (auto simp: Let_def retry_errno_def ENAMETOOLONG_def ENOENT_def EROFS_def EFAULT_def)
  moreover have "retry_errno (acc (pre @ ''/'' @ raw)) \<and> next_raw_path raw = Done None \<longrightarrow>
         get_real_path_loop acc pre raw = Some (Done (- ENOENT, None))"
    by (subst get_real_path_loop.simps)
       (auto simp: Let_def retry_errno_def ENAMETOOLONG_def ENOENT_def EROFS_def EFAULT_def)
  moreover have "acc (pre @ ''/'' @ raw) \<noteq> 0 \<and> \<not> retry_errno (acc (pre @ ''/'' @ raw)) \<longrightarrow>
         get_real_path_loop acc pre raw = Some (Done (- acc (pre @ ''/'' @ raw), None))"
    by (subst get_real_path_loop.simps) (auto simp: Let_def retry_errno_def)
  ultimately show ?thesis using ret by blast
qed

theorem get_real_path_witness:
  "get_real_path_loop (\<lambda>p. if p = ''/src//c.c'' then 0 else ENOENT) ''/src'' ''a/b/c.c''
     = Some (Done (0, Some ''/src//c.c''))
   \<and> next_raw_path ''a/b/c.c'' = Done (Some ''/b/c.c'')
   \<and> length ''/b/c.c'' < length ''a/b/c.c''
   \<and> get_real_path_loop (\<lambda>p. ENOENT) ''/src'' ''c.c'' = Some (Done (- ENOENT, None))
   \<and> get_real_path_loop (\<lambda>p. 13) ''/src'' ''a/b/c.c'' = Some (Done (- 13, None))"
proof -
  let ?acc = "\<lambda>p. if p = ''/src//c.c'' then 0 else ENOENT"
  have n1: "next_raw_path ''a/b/c.c'' = Done (Some ''/b/c.c'')"
    and n2: "next_raw_path ''/b/c.c'' = Done (Some ''/c.c'')"
    and n3: "next_raw_path ''c.c'' = Done None"
    by (simp_all add: next_raw_path_def)
  have r: "retry_errno ENOENT" "\<not> retry_errno 13"
    by (simp_all add: retry_errno_def ENAMETOOLONG_def ENOENT_def EROFS_def EFAULT_def)
  have e1: "get_real_path_loop ?acc ''/src'' ''a/b/c.c'' = get_real_path_loop ?acc ''/src'' ''/b/c.c''"
    using get_real_path_terminates [of ?acc "''/src''" "''a/b/c.c''"] n1 r by simp
  have e2: "get_real_path_loop ?acc ''/src'' ''/b/c.c'' = get_real_path_loop ?acc ''/src'' ''/c.c''"
    using get_real_path_terminates [of ?acc "''/src''" "''/b/c.c''"] n2 r by simp
  have e3: "get_real_path_loop ?acc ''/src'' ''/c.c'' = Some (Done (0, Some ''/src//c.c''))"
    by (subst get_real_path_loop.simps) (simp add: Let_def)
  have e4: "get_real_path_loop (\<lambda>p. ENOENT) ''/src'' ''c.c'' = Some (Done (- ENOENT, None))"
    using get_real_path_terminates [of "\<lambda>p. ENOENT" "''/src''" "''c.c''"] n3 r by simp
  have e5: "get_real_path_loop (\<lambda>p. 13) ''/src'' ''a/b/c.c'' = Some (Done (- 13, None))"
    using get_real_path_terminates [of "\<lambda>p. 13" "''/src''" "''a/b/c.c''"] r by simp
  from e1 e2 e3 e4 e5 n1 show ?thesis by simp
qed

subsection \<open>Lazy matching\<close>

lemma add_line_at_end:
  assumes "\<forall>x\<in>set head. x < line" and "0 < mem w"
  shows "line_list__add_line head line w = (0, head @ [line], (pr Debug w)\<lparr>mem := mem w - 1\<rparr>)"
proof -
  have pos: "line_list_pos (rev head) line = After (length head)"
    using assms(1) by (cases head rule: rev_cases) auto
  from assms(2) obtain m where m: "mem w = Suc m" by (cases "mem w") auto
  then have "zalloc (pr Debug w) = Some ((pr Debug w)\<lparr>mem := m\<rparr>)"
    by (simp add: zalloc_def pr_def)
  with pos m show ?thesis by (simp add: line_list__add_line_def Let_def)
qed

lemma strchr_line:
  "c \<notin> set l \<Longrightarrow> strchr (l @ c # rest) c = Some (c # rest)"
  by (induction l) auto

lemma lazy_match_loop_lines:
  assumes "\<forall>l\<in>set ls. CHR 0x0A \<notin> set l"
    and "\<forall>x\<in>set head. x < line"
    and "length (matching_lines m pat ls line) \<le> mem w"
  shows "\<exists>w'. lazy_match_loop m pat (concat (map (\<lambda>l. l @ [CHR 0x0A]) ls)) line head nlines w
         = (head @ matching_lines m pat ls line,
            nlines + int (length (matching_lines m pat ls line)), w')"
  using assms
proof (induction ls arbitrary: line head nlines w)
  case Nil
  then show ?case by simp
next
  case (Cons l ls)
  let ?rest = "concat (map (\<lambda>l. l @ [CHR 0x0A]) ls)"
  from Cons.prems(1) have nl: "CHR 0x0A \<notin> set l" and nls: "\<forall>l\<in>set ls. CHR 0x0A \<notin> set l"
    by simp_all
  have buf: "concat (map (\<lambda>l. l @ [CHR 0x0A]) (l # ls)) = l @ CHR 0x0A # ?rest" by simp
  have sc: "strchr (l @ CHR 0x0A # ?rest) (CHR 0x0A) = Some (CHR 0x0A # ?rest)"
    using nl by (rule strchr_line)
  show ?case
  proof (cases "m l pat")
    case False
    from Cons.prems(2) have lt: "\<forall>x\<in>set head. x < line + 1" by auto
    from Cons.prems(3) False have mm: "length (matching_lines m pat ls (line + 1)) \<le> mem w"
      by simp
    from Cons.IH [OF nls lt mm, of nlines] obtain w' where
      "lazy_match_loop m pat ?rest (line + 1) head nlines w
         = (head @ matching_lines m pat ls (line + 1),
            nlines + int (length (matching_lines m pat ls (line + 1))), w')" by blast
    with False sc show ?thesis
      by (subst lazy_match_loop.simps) (simp add: buf Let_def)
  next
    case True
    with Cons.prems(3) have pos: "0 < mem w" by simp
    let ?w1 = "(pr Debug w)\<lparr>mem := mem w - 1\<rparr>"
    have add: "line_list__add_line head line w = (0, head @ [line], ?w1)"
      using Cons.prems(2) pos by (rule add_line_at_end)
    from Cons.prems(2) have lt: "\<forall>x\<in>set (head @ [line]). x < line + 1" by auto
    from Cons.prems(3) True have mm: "length (matching_lines m pat ls (line + 1)) \<le> mem ?w1"
      by simp
    from Cons.IH [OF nls lt mm, of "nlines + 1"] obtain w' where
      "lazy_match_loop m pat ?rest (line + 1) (head @ [line]) (nlines + 1) ?w1
         = ((head @ [line]) @ matching_lines m pat ls (line + 1),
            nlines + 1 + int (length (matching_lines m pat ls (line + 1))), w')" by blast
    with True sc add show ?thesis
      by (subst lazy_match_loop.simps) (simp add: buf Let_def)
  qed
qed

lemma matching_lines_nth:
  "set (matching_lines m pat ls line) = {line + int k | k. k < length ls \<and> m (ls ! k) pat}"
proof (induction ls arbitrary: line)
  case Nil
  then show ?case by simp
next
  case (Cons l ls)
  have "{line + int k | k. k < length (l # ls) \<and> m ((l # ls) ! k) pat}
        = (if m l pat then {line} else {})
          \<union> {line + 1 + int k | k. k < length ls \<and> m (ls ! k) pat}"
  proof (intro set_eqI iffI)
    fix x assume "x \<in> {line + int k | k. k < length (l # ls) \<and> m ((l # ls) ! k) pat}"
    then obtain k where x: "x = line + int k" and k: "k < length (l # ls)" "m ((l # ls) ! k) pat"
      by blast
    show "x \<in> (if m l pat then {line} else {})
          \<union> {line + 1 + int k | k. k < length ls \<and> m (ls ! k) pat}"
    proof (cases k)
      case 0
      with x k show ?thesis by simp
    next
      case (Suc j)
      with x k have "x = line + 1 + int j" "j < length ls" "m (ls ! j) pat" by simp_all
      then show ?thesis by blast
    qed
  next
    fix x assume "x \<in> (if m l pat then {line} else {})
          \<union> {line + 1 + int k | k. k < length ls \<and> m (ls ! k) pat}"
    then consider "m l pat" "x = line"
      | k where "x = line + 1 + int k" "k < length ls" "m (ls ! k) pat"
      by (auto split: if_splits)
    then show "x \<in> {line + int k | k. k < length (l # ls) \<and> m ((l # ls) ! k) pat}"
    proof cases
      case 1
      then have "x = line + int 0 \<and> 0 < length (l # ls) \<and> m ((l # ls) ! 0) pat" by simp
      then show ?thesis by blast
    next
      case 2
      then have "x = line + int (Suc k) \<and> Suc k < length (l # ls) \<and> m ((l # ls) ! Suc k) pat"
        by simp
      then show ?thesis by blast
    qed
  qed
  with Cons.IH [of "line + 1"] show ?case by (auto split: if_splits)
qed

text \<open>
  C10: a file is a sequence of lines \<open>ls\<close>, each ended by a newline, followed by a
  last line \<open>fin\<close> that has none (\<open>fin\<close> is empty when the file ends with a
  newline). With no NUL in the file and memory for the buffer and the nodes,
  \<^const>\<open>find_lazy_match_lines\<close> returns the numbers (from 1) of exactly the lines among
  \<open>ls @ [fin]\<close> that match, in ascending order, and their count: the unterminated last
  line is tested as line \<open>length ls + 1\<close>.
\<close>

theorem find_lazy_match_lines_every_line:
  assumes lines: "\<forall>l\<in>set ls. CHR 0x0A \<notin> set l" "CHR 0x0A \<notin> set fin"
    and bytes: "bytes = concat (map (\<lambda>l. l @ [CHR 0x0A]) ls) @ fin"
    and nonul: "c_string bytes"
    and mem: "length (matching_lines m pat (ls @ [fin]) 1) < mem w"
  shows "(\<exists>w'. find_lazy_match_lines m (Contents bytes) [] pat w
            = (int (length (matching_lines m pat (ls @ [fin]) 1)),
               matching_lines m pat (ls @ [fin]) 1, w'))
         \<and> set (matching_lines m pat (ls @ [fin]) 1)
             = {1 + int k | k. k < length (ls @ [fin]) \<and> m ((ls @ [fin]) ! k) pat}
         \<and> (m fin pat \<longrightarrow> 1 + int (length ls) \<in> set (matching_lines m pat (ls @ [fin]) 1))"
proof -
  let ?all = "ls @ [fin]"
  let ?ml = "matching_lines m pat ?all 1"
  from mem obtain k where k: "mem w = Suc k" by (cases "mem w") auto
  then have za: "zalloc w = Some (w\<lparr>mem := k\<rparr>)" by (simp add: zalloc_def)
  have buf: "takeWhile (\<lambda>c. c \<noteq> CHR 0x00) (bytes @ [CHR 0x0A]) = concat (map (\<lambda>l. l @ [CHR 0x0A]) ?all)"
  proof -
    from nonul have "\<forall>c\<in>set (bytes @ [CHR 0x0A]). c \<noteq> CHR 0x00"
      by (auto simp: c_string_def)
    then have "takeWhile (\<lambda>c. c \<noteq> CHR 0x00) (bytes @ [CHR 0x0A]) = bytes @ [CHR 0x0A]"
      by (simp only: takeWhile_eq_all_conv)
    then show ?thesis by (simp add: bytes)
  qed
  have nl: "\<forall>l\<in>set ?all. CHR 0x0A \<notin> set l" using lines by simp
  have m': "length ?ml \<le> mem (w\<lparr>mem := k\<rparr>)" using mem k by simp
  from lazy_match_loop_lines [OF nl _ m', of "[]" 0] obtain w' where
    "lazy_match_loop m pat (concat (map (\<lambda>l. l @ [CHR 0x0A]) ?all)) 1 [] 0 (w\<lparr>mem := k\<rparr>)
       = (?ml, int (length ?ml), w')" by auto
  with za buf have "find_lazy_match_lines m (Contents bytes) [] pat w = (int (length ?ml), ?ml, w')"
    by (simp add: find_lazy_match_lines_def)
  moreover have s: "set ?ml = {1 + int k | k. k < length ?all \<and> m (?all ! k) pat}"
    by (rule matching_lines_nth)
  moreover have "m fin pat \<longrightarrow> 1 + int (length ls) \<in> set ?ml"
  proof
    assume "m fin pat"
    then have "length ls < length ?all \<and> m (?all ! length ls) pat" by simp
    then show "1 + int (length ls) \<in> set ?ml" unfolding s by blast
  qed
  ultimately show ?thesis by blast
qed

theorem find_lazy_match_lines_witness:
  "\<exists>w'. find_lazy_match_lines (\<lambda>l p. l = p) (Contents (''a'' @ [CHR 0x0A] @ ''b'' @ [CHR 0x0A] @ ''c''))
           [] ''c'' \<lparr>mem = 2, log = []\<rparr> = (1, [3], w')"
  using find_lazy_match_lines_every_line [of "[''a'', ''b'']" "''c''"
      "''a'' @ [CHR 0x0A] @ ''b'' @ [CHR 0x0A] @ ''c''" "\<lambda>l p. l = p" "''c''" "\<lparr>mem = 2, log = []\<rparr>"]
  by (simp add: c_string_def)
subsection \<open>Comparing the name of a DIE\<close>

lemma of_char_pos_iff: "0 < (of_char c :: nat) \<longleftrightarrow> c \<noteq> CHR 0x00"
proof -
  have "(of_char c :: nat) = of_char (CHR 0x00) \<longleftrightarrow> c = CHR 0x00"
    by (rule of_char_eq_iff)
  then have "(of_char c :: nat) = 0 \<longleftrightarrow> c = CHR 0x00" by simp
  then show ?thesis by auto
qed

lemma strcmp_zero_iff:
  "c_string s \<Longrightarrow> c_string t \<Longrightarrow> strcmp s t = 0 \<longleftrightarrow> s = t"
proof (induction s t rule: strcmp.induct)
  case 1
  then show ?case by simp
next
  case (2 d ds)
  then show ?case by (auto simp: c_string_def of_char_pos_iff)
next
  case (3 c cs)
  then show ?case by (auto simp: c_string_def of_char_pos_iff)
next
  case (4 c cs d ds)
  have "int (of_char c) = int (of_char d) \<longleftrightarrow> c = d"
    by (simp add: of_char_eq_iff)
  with 4 show ?case by (auto simp: c_string_def)
qed

text \<open>
  C4, as the code has it: the result of \<^const>\<open>die_compare_name\<close> has the sense of
  \<^verbatim>\<open>strcmp\<close>. It is false exactly when the DIE has a name and the name is the
  expected string; it is true when the names differ and when the DIE has no name. (The
  callers test \<^verbatim>\<open>die_compare_name(...) == 0\<close>.)
\<close>

theorem die_compare_name_false_iff_equal:
  assumes "c_string tname"
    and "\<forall>name. dwarf_diename dw_die = Some name \<longrightarrow> c_string name"
  shows "die_compare_name dw_die tname \<longleftrightarrow> dwarf_diename dw_die \<noteq> Some tname"
proof (cases "dwarf_diename dw_die")
  case None
  then show ?thesis by (simp add: die_compare_name_def)
next
  case (Some name)
  with assms have "strcmp tname name = 0 \<longleftrightarrow> tname = name"
    by (simp add: strcmp_zero_iff)
  with Some show ?thesis by (auto simp: die_compare_name_def)
qed

theorem die_compare_name_witness:
  "\<not> die_compare_name (Die ((no_attrs DW_TAG_subprogram)\<lparr>die_name := Some ''schedule''\<rparr>) None []) ''schedule''
   \<and> die_compare_name (Die ((no_attrs DW_TAG_subprogram)\<lparr>die_name := Some ''schedule''\<rparr>) None []) ''kfree''"
  using die_compare_name_false_iff_equal
      [of "''schedule''" "Die ((no_attrs DW_TAG_subprogram)\<lparr>die_name := Some ''schedule''\<rparr>) None []"]
    die_compare_name_false_iff_equal
      [of "''kfree''" "Die ((no_attrs DW_TAG_subprogram)\<lparr>die_name := Some ''schedule''\<rparr>) None []"]
  by (simp add: c_string_def dwarf_diename_def no_attrs_def)

text \<open>
  C4 as stated fails: on equal names the function returns false, and on a DIE without a
  name it returns true.
\<close>

theorem die_compare_name_not_equality:
  "\<not> (die_compare_name (Die ((no_attrs DW_TAG_subprogram)\<lparr>die_name := Some ''main''\<rparr>) None []) ''main''
        \<longleftrightarrow> dwarf_diename (Die ((no_attrs DW_TAG_subprogram)\<lparr>die_name := Some ''main''\<rparr>) None []) = Some ''main'')
   \<and> die_compare_name (Die (no_attrs DW_TAG_subprogram) None []) ''main''"
  by (simp add: die_compare_name_def dwarf_diename_def no_attrs_def)
subsection \<open>The location of a variable\<close>

lemma breg_unat:
  assumes "N < 32"
  shows "unat (DW_OP_breg0 + of_nat N) = 112 + N"
proof -
  have "unat (of_nat N :: 8 word) = N" using assms by (simp add: unat_of_nat)
  then show ?thesis using assms
    by (simp add: unat_word_ariths DW_OP_breg0_def)
qed

lemma location_register_breg:
  assumes "N < 32" and "atom fb_op = DW_OP_breg0 + of_nat N"
  shows "location_register fb_op offs ref = Some (of_nat N, offs + number fb_op, True)"
proof -
  have "(ucast (DW_OP_breg0 + of_nat N) :: 32 word) = of_nat (unat (DW_OP_breg0 + of_nat N))"
    by (simp add: of_nat_unat)
  then have "(ucast (DW_OP_breg0 + of_nat N) :: 32 word) = of_nat (112 + N)"
    by (simp only: breg_unat [OF assms(1)])
  moreover have "(ucast DW_OP_breg0 :: 32 word) = 112" by (simp add: DW_OP_breg0_def)
  ultimately have regn: "(ucast (atom fb_op) :: 32 word) - ucast DW_OP_breg0 = of_nat N"
    by (simp add: assms(2))
  have "unat DW_OP_breg0 \<le> unat (atom fb_op)" "unat (atom fb_op) \<le> unat DW_OP_breg31"
    using breg_unat [OF assms(1)] assms
    by (simp_all add: DW_OP_breg0_def DW_OP_breg31_def)
  then have "DW_OP_breg0 \<le> atom fb_op \<and> atom fb_op \<le> DW_OP_breg31"
    by (simp add: word_le_nat_alt)
  with regn show ?thesis by (simp add: location_register_def)
qed

lemma location_value_ok:
  assumes "get_arch_regstr e regn = Some regs" and "2 \<le> mem w"
  shows "location_value e regn offs True pf w
         = (0, pf\<lparr>pf_tvar := (pf_tvar pf)\<lparr>targ_value := Some regs, targ_ref := [offs]\<rparr>\<rparr>,
            w\<lparr>mem := mem w - 2\<rparr>)"
proof -
  from assms(2) obtain k where k: "mem w = Suc (Suc k)"
    by (metis Suc_le_D numeral_2_eq_2 Suc_le_mono)
  then show ?thesis using assms(1)
    by (simp add: location_value_def zalloc_def Let_def)
qed

text \<open>
  C1: the location of the variable at \<^verbatim>\<open>pf->addr\<close> starts with
  \<^verbatim>\<open>DW_OP_fbreg n\<close>. When the frame base starts with \<^verbatim>\<open>DW_OP_bregN m\<close>
  (in particular when it is that single operation), register \<open>N\<close> has a name and two
  allocations succeed, \<^const>\<open>convert_variable_location\<close> returns 0, the value is the
  name of register \<open>N\<close> and the chain of references is the one node with the offset
  \<open>n + m\<close> (the sum of the two 64-bit operands, as \<^verbatim>\<open>long\<close>). When the register
  has no name the result is \<^verbatim>\<open>-ERANGE\<close>. Without a frame base
  (\<^verbatim>\<open>pf->fb_ops == NULL\<close>) the result is \<^verbatim>\<open>-ENOTSUP\<close>; in both failures the
  trace argument is left as it was.
\<close>

theorem convert_variable_location_fbreg:
  assumes loc: "die_location (attrs vr_die) (pf_addr pf) = Some (opr # ops)"
    and fbreg: "atom opr = DW_OP_fbreg"
  shows "(pf_fb_ops pf = Some (fb_op # fb_rest) \<and> atom fb_op = DW_OP_breg0 + of_nat N \<and> N < 32
            \<and> get_arch_regstr e (of_nat N) = Some regs \<and> 2 \<le> mem w \<longrightarrow>
          convert_variable_location e vr_die pf w
            = Done (0,
                    pf\<lparr>pf_tvar := (pf_tvar pf)\<lparr>targ_value := Some regs,
                                                 targ_ref := [number opr + number fb_op]\<rparr>\<rparr>,
                    w\<lparr>mem := mem w - 2\<rparr>))
       \<and> (pf_fb_ops pf = Some (fb_op # fb_rest) \<and> atom fb_op = DW_OP_breg0 + of_nat N \<and> N < 32
            \<and> get_arch_regstr e (of_nat N) = None \<longrightarrow>
          convert_variable_location e vr_die pf w = Done (- ERANGE, pf, pr Warning w))
       \<and> (pf_fb_ops pf = None \<longrightarrow>
          convert_variable_location e vr_die pf w = Done (- ENOTSUP, pf, pr Warning w))"
proof -
  have na: "atom opr \<noteq> DW_OP_addr" using fbreg by (simp add: DW_OP_fbreg_def DW_OP_addr_def)
  have a: "convert_variable_location e vr_die pf w
            = Done (0,
                    pf\<lparr>pf_tvar := (pf_tvar pf)\<lparr>targ_value := Some regs,
                                                 targ_ref := [number opr + number fb_op]\<rparr>\<rparr>,
                    w\<lparr>mem := mem w - 2\<rparr>)"
    if "pf_fb_ops pf = Some (fb_op # fb_rest)" "atom fb_op = DW_OP_breg0 + of_nat N" "N < 32"
       "get_arch_regstr e (of_nat N) = Some regs" "2 \<le> mem w"
    using that loc fbreg na
    by (simp add: convert_variable_location_def location_register_breg location_value_ok)
  have b: "convert_variable_location e vr_die pf w = Done (- ERANGE, pf, pr Warning w)"
    if "pf_fb_ops pf = Some (fb_op # fb_rest)" "atom fb_op = DW_OP_breg0 + of_nat N" "N < 32"
       "get_arch_regstr e (of_nat N) = None"
    using that loc fbreg na
    by (simp add: convert_variable_location_def location_register_breg location_value_def)
  have c: "convert_variable_location e vr_die pf w = Done (- ENOTSUP, pf, pr Warning w)"
    if "pf_fb_ops pf = None"
    using that loc fbreg na by (simp add: convert_variable_location_def)
  from a b c show ?thesis by blast
qed

theorem convert_variable_location_fbreg_witness:
  "convert_variable_location example_env count_die
     ((probe_finder_init fill_event 1 None)
        \<lparr>pf_fb_ops := Some [\<lparr>atom = DW_OP_breg0 + 6, number = 16, number2 = 0\<rparr>]\<rparr>)
     \<lparr>mem = 2, log = []\<rparr>
   = Done (0,
           (probe_finder_init fill_event 1 None)
             \<lparr>pf_fb_ops := Some [\<lparr>atom = DW_OP_breg0 + 6, number = 16, number2 = 0\<rparr>],
              pf_tvar := zero_trace_arg\<lparr>targ_value := Some ''%bp'', targ_ref := [- 4]\<rparr>\<rparr>,
           \<lparr>mem = 0, log = []\<rparr>)
   \<and> convert_variable_location example_env count_die
       ((probe_finder_init fill_event 1 None)
          \<lparr>pf_fb_ops := Some [\<lparr>atom = DW_OP_breg0 + 5, number = 16, number2 = 0\<rparr>]\<rparr>)
       \<lparr>mem = 2, log = []\<rparr>
     = Done (- ERANGE,
             (probe_finder_init fill_event 1 None)
               \<lparr>pf_fb_ops := Some [\<lparr>atom = DW_OP_breg0 + 5, number = 16, number2 = 0\<rparr>]\<rparr>,
             \<lparr>mem = 2, log = [Warning]\<rparr>)
   \<and> convert_variable_location example_env count_die (probe_finder_init fill_event 1 None)
       \<lparr>mem = 2, log = []\<rparr>
     = Done (- ENOTSUP, probe_finder_init fill_event 1 None, \<lparr>mem = 2, log = [Warning]\<rparr>)"
proof -
  let ?opr = "\<lparr>atom = DW_OP_fbreg, number = - 20, number2 = 0\<rparr>"
  let ?fb = "\<lparr>atom = DW_OP_breg0 + 6, number = 16, number2 = 0\<rparr>"
  let ?fb5 = "\<lparr>atom = DW_OP_breg0 + 5, number = 16, number2 = 0\<rparr>"
  let ?pf = "probe_finder_init fill_event 1 None"
  let ?w = "\<lparr>mem = 2, log = []\<rparr>"
  have loc: "die_location (attrs count_die) pc = Some [?opr]" for pc
    by (simp add: count_die_def no_attrs_def)
  have at: "atom ?opr = DW_OP_fbreg" by simp
  have reg: "get_arch_regstr example_env (of_nat 6) = Some ''%bp''"
    "get_arch_regstr example_env (of_nat 5) = None"
    by (simp_all add: example_env_def)
  from convert_variable_location_fbreg
         [OF loc at, where pf = "?pf\<lparr>pf_fb_ops := Some [?fb]\<rparr>" and fb_op = ?fb and fb_rest = "[]"
            and N = 6 and e = example_env and regs = "''%bp''" and w = ?w]
       convert_variable_location_fbreg
         [OF loc at, where pf = "?pf\<lparr>pf_fb_ops := Some [?fb5]\<rparr>" and fb_op = ?fb5 and fb_rest = "[]"
            and N = 5 and e = example_env and w = ?w]
       convert_variable_location_fbreg [OF loc at, where pf = ?pf and e = example_env and w = ?w]
       reg
  show ?thesis
    by (simp add: probe_finder_init_def pr_def)
qed

subsection \<open>The type of a variable\<close>

lemma signed_take_bit_small:
  fixes n :: nat
  assumes "n < 2 ^ 28"
  shows "signed_take_bit 31 (int n * 8) = int n * 8"
proof (rule signed_take_bit_int_eq_self)
  show "- (2 ^ 31) \<le> int n * 8" by simp
  from assms have "int n < 2 ^ 28" by simp
  then show "int n * 8 < 2 ^ 31" by simp
qed

lemma byte_size_bits:
  assumes n: "unat (bsz :: Dwarf_Word) = n" and small: "n < 2 ^ 28"
  shows "sint ((ucast bsz :: c_int) * 8) = 8 * int n"
proof -
  have "unat (ucast bsz :: c_int) = take_bit 32 (unat bsz)"
    by (simp add: unsigned_ucast_eq)
  also have "\<dots> = n"
    using small by (simp add: n take_bit_nat_eq_self)
  finally have u: "unat (ucast bsz :: c_int) = n" .
  have "unat ((ucast bsz :: c_int) * 8) = (n * 8) mod 2 ^ 32"
    by (simp add: unat_word_ariths u)
  also have "\<dots> = n * 8" using small by simp
  finally have m: "unat ((ucast bsz :: c_int) * 8) = n * 8" .
  have "uint ((ucast bsz :: c_int) * 8) = int (unat ((ucast bsz :: c_int) * 8))"
    by simp
  then have ui: "uint ((ucast bsz :: c_int) * 8) = int n * 8"
    by (simp only: m of_nat_mult of_nat_numeral)
  have "sint ((ucast bsz :: c_int) * 8) = signed_take_bit 31 (uint ((ucast bsz :: c_int) * 8))"
    by (simp add: sint_uint)
  also have "\<dots> = int n * 8"
    unfolding ui using small by (rule signed_take_bit_small)
  finally show ?thesis by simp
qed

lemma show_nat_digits: "n < 100 \<Longrightarrow> length (show_nat n) \<le> 2"
  by (subst show_nat.simps, subst show_nat.simps) (auto simp del: show_nat.simps)

lemma convert_variable_type_bits:
  assumes ty: "die_get_real_type vr_die = Some type"
    and sz: "die_byte_size (attrs type) = Some bsz"
    and n: "unat bsz = n"
    and pos: "0 < n" and small: "n < 2 ^ 28"
    and m: "0 < mem w"
  shows "convert_variable_type vr_die targ w
         = (0,
            targ\<lparr>targ_type := Some ((if die_is_signed_type type then CHR ''s'' else CHR ''u'')
                                     # show_nat (min (8 * n) 64))\<rparr>,
            (if 8 < n then pr Info (pr Debug w) else pr Debug w)\<lparr>mem := mem w - 1\<rparr>)
         \<and> min (8 * n) 64 \<in> {8, 16, 24, 32, 40, 48, 56, 64}"
proof -
  let ?ret = "die_get_byte_size type * 8"
  have bits: "sint ?ret = 8 * int n"
    using byte_size_bits [OF n small] sz by (simp add: die_get_byte_size_def)
  have nz: "?ret \<noteq> 0"
  proof
    assume "?ret = 0"
    then have "sint ?ret = 0" by simp
    with bits pos show False by simp
  qed
  have max: "sint MAX_BASIC_TYPE_BITS = 64" by (simp add: MAX_BASIC_TYPE_BITS_def)
  from m obtain k where k: "mem w = Suc k" by (cases "mem w") auto
  have in_set: "min (8 * n) 64 \<in> {8, 16, 24, 32, 40, 48, 56, 64}"
  proof (cases "8 \<le> n")
    case True
    then show ?thesis by (simp add: min_def)
  next
    case False
    with pos have "n \<in> {1, 2, 3, 4, 5, 6, 7}" by auto
    then show ?thesis by auto
  qed
  then have len: "length (show_nat (min (8 * n) 64)) \<le> 2"
    by (intro show_nat_digits) auto
  show ?thesis
  proof (cases "8 < n")
    case True
    then have gt: "sint MAX_BASIC_TYPE_BITS < sint ?ret" using bits max by simp
    from True have mn: "min (8 * n) 64 = 64" by simp
    have "show_int (sint MAX_BASIC_TYPE_BITS) = show_nat 64"
      by (simp add: show_int_def max)
    with ty nz gt k True in_set len mn show ?thesis
      by (simp add: convert_variable_type_def Let_def zalloc_def pr_def del: show_nat.simps)
  next
    case False
    then have ngt: "\<not> sint MAX_BASIC_TYPE_BITS < sint ?ret" using bits max by simp
    from False have mn: "min (8 * n) 64 = 8 * n" by simp
    have "nat (8 * int n) = 8 * n" by (simp add: nat_mult_distrib)
    then have "show_int (sint ?ret) = show_nat (8 * n)"
      by (simp add: show_int_def bits del: show_nat.simps)
    with ty nz ngt k False in_set len mn show ?thesis
      by (simp add: convert_variable_type_def Let_def zalloc_def pr_def del: show_nat.simps)
  qed
qed

text \<open>
  C3, as the code has it: the type of the variable resolves to a DIE with a byte size
  below \<open>2 ^ 28\<close> (so that the 32-bit product with 8 does not overflow). For a size
  that is not 0, and with memory for the tag, \<^const>\<open>convert_variable_type\<close> returns 0
  and sets the tag \<^verbatim>\<open>s\<close> or \<^verbatim>\<open>u\<close> followed by the width in decimal; the width
  is 8 times the size, cut down to 64, and so a multiple of 8 from 8 to 64. A size above
  8 bytes prints one \<^verbatim>\<open>pr_info\<close> message and still succeeds. For the size 0 no tag
  is set.
\<close>

theorem convert_variable_type_width:
  assumes ty: "die_get_real_type vr_die = Some type"
    and sz: "die_byte_size (attrs type) = Some bsz"
    and small: "unat bsz < 2 ^ 28"
  shows "(0 < unat bsz \<and> 0 < mem w \<longrightarrow>
            convert_variable_type vr_die targ w
            = (0,
               targ\<lparr>targ_type := Some ((if die_is_signed_type type then CHR ''s'' else CHR ''u'')
                                        # show_nat (min (8 * unat bsz) 64))\<rparr>,
               (if 8 < unat bsz then pr Info (pr Debug w) else pr Debug w)\<lparr>mem := mem w - 1\<rparr>))
         \<and> (0 < unat bsz \<longrightarrow> min (8 * unat bsz) 64 \<in> {8, 16, 24, 32, 40, 48, 56, 64})
         \<and> (unat bsz = 0 \<longrightarrow> convert_variable_type vr_die targ w = (0, targ, pr Debug w))"
proof -
  have a: "convert_variable_type vr_die targ w
            = (0,
               targ\<lparr>targ_type := Some ((if die_is_signed_type type then CHR ''s'' else CHR ''u'')
                                        # show_nat (min (8 * unat bsz) 64))\<rparr>,
               (if 8 < unat bsz then pr Info (pr Debug w) else pr Debug w)\<lparr>mem := mem w - 1\<rparr>)"
    if "0 < unat bsz" "0 < mem w"
    using convert_variable_type_bits [OF ty sz refl that(1) small that(2)] by blast
  have b: "min (8 * unat bsz) 64 \<in> {8, 16, 24, 32, 40, 48, 56, 64}" if "0 < unat bsz"
    using convert_variable_type_bits [OF ty sz refl that small, of "\<lparr>mem = 1, log = []\<rparr>"]
    by simp
  have c: "convert_variable_type vr_die targ w = (0, targ, pr Debug w)" if "unat bsz = 0"
  proof -
    from that have "bsz = 0" by (simp add: unat_eq_0)
    with ty sz show ?thesis
      by (simp add: convert_variable_type_def die_get_byte_size_def Let_def)
  qed
  from a b c show ?thesis by blast
qed

theorem convert_variable_type_witness:
  "convert_variable_type (Die (no_attrs DW_TAG_variable) (Some int128_die) []) zero_trace_arg
     \<lparr>mem = 1, log = []\<rparr>
   = (0, zero_trace_arg\<lparr>targ_type := Some ''s64''\<rparr>, \<lparr>mem = 0, log = [Debug, Info]\<rparr>)
   \<and> convert_variable_type (Die (no_attrs DW_TAG_variable) (Some int_die) []) zero_trace_arg
       \<lparr>mem = 1, log = []\<rparr>
     = (0, zero_trace_arg\<lparr>targ_type := Some ''s32''\<rparr>, \<lparr>mem = 0, log = [Debug]\<rparr>)"
proof -
  have ty: "die_get_real_type (Die (no_attrs DW_TAG_variable) (Some int128_die) []) = Some int128_die"
    "die_get_real_type (Die (no_attrs DW_TAG_variable) (Some int_die) []) = Some int_die"
    by code_simp+
  have sz: "die_byte_size (attrs int128_die) = Some 16" "die_byte_size (attrs int_die) = Some 4"
    by (simp_all add: int128_die_def int_die_def no_attrs_def)
  have sg: "die_is_signed_type int128_die" "die_is_signed_type int_die"
    by code_simp+
  have sh: "show_nat 64 = ''64''" "show_nat 32 = ''32''" by code_simp+
  from convert_variable_type_width [OF ty(1) sz(1), of "\<lparr>mem = 1, log = []\<rparr>" zero_trace_arg]
       convert_variable_type_width [OF ty(2) sz(2), of "\<lparr>mem = 1, log = []\<rparr>" zero_trace_arg]
       sg sh
  show ?thesis by (simp add: pr_def del: show_nat.simps)
qed

text \<open>
  C3 as stated fails: a variable whose type is a structure of 3 bytes gets the tag
  \<^verbatim>\<open>u24\<close>, of a width that is none of 8, 16, 32 and 64.
\<close>

theorem convert_variable_type_u24:
  "convert_variable_type (Die (no_attrs DW_TAG_variable) (Some rgb_die) []) zero_trace_arg
     \<lparr>mem = 1, log = []\<rparr>
   = (0, zero_trace_arg\<lparr>targ_type := Some ''u24''\<rparr>, \<lparr>mem = 0, log = [Debug]\<rparr>)
   \<and> ''u24'' \<notin> basic_type_tags"
  by (simp add: basic_type_tags_def) code_simp

subsection \<open>The fields of a variable\<close>

text \<open>
  The array branch of \<^const>\<open>convert_variable_field\<close> allocates no node; with an empty
  chain (\<^verbatim>\<open>*ref_ptr == NULL\<close>: the variable is in a register)
  \<^verbatim>\<open>ref->offset += ...\<close> goes through the \<^verbatim>\<open>NULL\<close> pointer.
\<close>

lemma convert_variable_fields_null_ref:
  assumes "die_get_real_type vr_die = Some type"
    and "dwarf_tag type = DW_TAG_array_type"
    and "die_get_real_type type = Some elem"
    and "take 1 (field_name field) = ''[''"
  shows "convert_variable_fields vr_die varname field next [] w = Fault"
  using assms
  by (simp add: convert_variable_field_def add_ref_offset_def Let_def
      DW_TAG_array_type_def DW_TAG_pointer_type_def)

text \<open>
  C9 fails on the code: \<^verbatim>\<open>int buf[4]\<close> lives in register 0, the request is
  \<^verbatim>\<open>buf[1]\<close>. \<^const>\<open>convert_variable_location\<close> succeeds and leaves no reference,
  \<^const>\<open>convert_variable_fields\<close> then writes through the \<^verbatim>\<open>NULL\<close> pointer, and so
  does the whole of \<^const>\<open>convert_probe_point\<close>. (The branch for structures has the test
  \<^verbatim>\<open>if (!ref)\<close> and returns \<^verbatim>\<open>-ENOTSUP\<close>.)
\<close>

theorem array_in_register_faults:
  "convert_probe_point example_env (Some fill_die)
     ((probe_finder_init buf_1_event 1 None)\<lparr>pf_addr := 0x1000\<rparr>) \<lparr>mem = 10, log = []\<rparr> = Fault
   \<and> convert_variable_location example_env buf_die
       ((probe_finder_init buf_1_event 1 None)\<lparr>pf_addr := 0x1000\<rparr>) \<lparr>mem = 10, log = []\<rparr>
     = Done (0, (probe_finder_init buf_1_event 1 None)
                  \<lparr>pf_addr := 0x1000, pf_tvar := zero_trace_arg\<lparr>targ_value := Some ''%ax''\<rparr>\<rparr>,
             \<lparr>mem = 9, log = []\<rparr>)
   \<and> convert_variable_fields buf_die ''buf''
       \<lparr>field_name = ''[1]'', field_index = 1, field_ref = False\<rparr> [] [] \<lparr>mem = 9, log = []\<rparr> = Fault"
  by (intro conjI; code_simp)

subsection \<open>The capacity of the probe finder\<close>

text \<open>
  The functions below \<^const>\<open>convert_probe_point\<close> write through \<^verbatim>\<open>pf->tvar\<close>
  only; the array of events, the count and the capacity are as before.
\<close>

lemma location_value_events:
  "location_value e regn offs ref pf w = (ret, pf', w') \<Longrightarrow>
     pf_tevs pf' = pf_tevs pf \<and> pf_ntevs pf' = pf_ntevs pf \<and> pf_max_tevs pf' = pf_max_tevs pf"
  by (auto simp: location_value_def Let_def split: option.splits if_splits)

lemma convert_variable_location_events:
  assumes "convert_variable_location e vr_die pf w = Done (ret, pf', w')"
  shows "pf_tevs pf' = pf_tevs pf \<and> pf_ntevs pf' = pf_ntevs pf \<and> pf_max_tevs pf' = pf_max_tevs pf"
proof (cases "die_location (attrs vr_die) (pf_addr pf)")
  case None
  with assms show ?thesis by (simp add: convert_variable_location_def)
next
  case (Some ops)
  show ?thesis
  proof (cases ops)
    case Nil
    with Some assms show ?thesis by (simp add: convert_variable_location_def)
  next
    case (Cons opr rest)
    consider (addr) "atom opr = DW_OP_addr"
      | (fbreg) "atom opr \<noteq> DW_OP_addr" "atom opr = DW_OP_fbreg"
      | (other) "atom opr \<noteq> DW_OP_addr" "atom opr \<noteq> DW_OP_fbreg" by blast
    then show ?thesis
    proof cases
      case addr
      with Some Cons assms show ?thesis
        by (auto simp: convert_variable_location_def Let_def split: option.splits)
    next
      case fbreg
      with Some Cons assms show ?thesis
        by (auto simp: convert_variable_location_def
            split: option.splits list.splits dest: location_value_events)
    next
      case other
      with Some Cons assms show ?thesis
        by (auto simp: convert_variable_location_def
            split: option.splits dest: location_value_events)
    qed
  qed
qed

lemma convert_variable_events:
  assumes "convert_variable e vr_die pf w = Done (ret, pf', w')"
  shows "pf_tevs pf' = pf_tevs pf \<and> pf_ntevs pf' = pf_ntevs pf \<and> pf_max_tevs pf' = pf_max_tevs pf"
proof -
  from assms obtain r1 pf1 w1 where
    loc: "convert_variable_location e vr_die pf (pr Debug w) = Done (r1, pf1, w1)"
    by (auto simp: convert_variable_def split: run.splits)
  note p1 = convert_variable_location_events [OF loc]
  let ?mid = "(case parg_field (pf_pvar pf1) of
                   field # next \<Rightarrow>
                     if r1 = 0 then
                       (case convert_variable_fields vr_die (parg_var (pf_pvar pf1)) field next
                               (targ_ref (pf_tvar pf1)) w1 of
                          Fault \<Rightarrow> Fault
                        | Done (ret1, refs, die_mem, w1) \<Rightarrow>
                            Done (ret1, pf1\<lparr>pf_tvar := (pf_tvar pf1)\<lparr>targ_ref := refs\<rparr>\<rparr>, die_mem, w1))
                     else Done (r1, pf1, Some vr_die, w1)
                 | [] \<Rightarrow> Done (r1, pf1, Some vr_die, w1))"
  from assms loc obtain r2 pf2 d2 w2 where mid: "?mid = Done (r2, pf2, d2, w2)"
    by (auto simp: convert_variable_def split: run.splits)
  then have p2: "pf_tevs pf2 = pf_tevs pf1 \<and> pf_ntevs pf2 = pf_ntevs pf1
                 \<and> pf_max_tevs pf2 = pf_max_tevs pf1"
    by (auto split: list.splits if_splits run.splits)
  from assms loc mid have "pf_tevs pf' = pf_tevs pf2 \<and> pf_ntevs pf' = pf_ntevs pf2
                 \<and> pf_max_tevs pf' = pf_max_tevs pf2"
    by (auto simp: convert_variable_def set_tvar_type_def
        split: if_splits option.splits prod.splits)
  with p1 p2 show ?thesis by simp
qed

lemma find_variable_events:
  assumes "find_variable e sp_die pf w = Done (ret, pf', w')"
  shows "pf_tevs pf' = pf_tevs pf \<and> pf_ntevs pf' = pf_ntevs pf \<and> pf_max_tevs pf' = pf_max_tevs pf"
  using assms
  by (auto simp: find_variable_def Let_def
      split: option.splits sum.splits prod.splits if_splits run.splits
      dest!: convert_variable_events)

lemma find_variables_events:
  assumes "find_variables e sp_die k i args pf w = Done (ret, pf', w')"
  shows "length (pf_tevs pf') = length (pf_tevs pf) \<and> pf_ntevs pf' = pf_ntevs pf
         \<and> pf_max_tevs pf' = pf_max_tevs pf
         \<and> (\<forall>j. j \<noteq> k \<longrightarrow> pf_tevs pf' ! j = pf_tevs pf ! j)"
  using assms
proof (induction args arbitrary: i pf w)
  case Nil
  then show ?case by simp
next
  case (Cons pvar rest)
  let ?pf0 = "pf\<lparr>pf_pvar := pvar, pf_tvar := tev_args (pf_tevs pf ! k) ! i\<rparr>"
  from Cons.prems obtain r1 pf1 w1 where
    fv: "find_variable e sp_die ?pf0 w = Done (r1, pf1, w1)"
    by (auto split: run.splits)
  from find_variable_events [OF fv]
  have e1: "pf_tevs pf1 = pf_tevs pf" "pf_ntevs pf1 = pf_ntevs pf" "pf_max_tevs pf1 = pf_max_tevs pf"
    by simp_all
  have st: "length (pf_tevs (store_tvar k i pf1)) = length (pf_tevs pf)
            \<and> pf_ntevs (store_tvar k i pf1) = pf_ntevs pf
            \<and> pf_max_tevs (store_tvar k i pf1) = pf_max_tevs pf
            \<and> (\<forall>j. j \<noteq> k \<longrightarrow> pf_tevs (store_tvar k i pf1) ! j = pf_tevs pf ! j)"
    using e1 by (simp add: store_tvar_def update_tev_def)
  show ?case
  proof (cases "r1 = 0")
    case False
    with Cons.prems fv have "pf' = store_tvar k i pf1" by simp
    with st show ?thesis by simp
  next
    case True
    with Cons.prems fv have
      "find_variables e sp_die k (Suc i) rest (store_tvar k i pf1) w1 = Done (ret, pf', w')"
      by simp
    from Cons.IH [OF this] st show ?thesis by simp
  qed
qed

lemma convert_probe_point_events:
  assumes run: "convert_probe_point e sp_die pf w = Done (ret, pf', w')"
    and room: "pf_ntevs pf \<noteq> pf_max_tevs pf"
  shows "length (pf_tevs pf') = length (pf_tevs pf) \<and> pf_ntevs pf' = pf_ntevs pf + 1
         \<and> pf_max_tevs pf' = pf_max_tevs pf
         \<and> (\<forall>j. j \<noteq> nat (pf_ntevs pf) \<longrightarrow> pf_tevs pf' ! j = pf_tevs pf ! j)"
  using run room
  apply (simp add: convert_probe_point_def Let_def
      split: if_splits option.splits sum.splits prod.splits run.splits)
            apply (auto simp: update_tev_def dest!: find_variables_events)
  done

text \<open>
  C2: when \<open>pf_ntevs\<close> has reached \<open>pf_max_tevs\<close>, \<^const>\<open>convert_probe_point\<close>
  returns \<^verbatim>\<open>-ERANGE\<close> and leaves the probe finder, with all its events, as it was
  (it prints one warning). Before that, a call that returns takes the next event of the
  array: the count grows by one, and no other event of the array is changed, whether the
  call succeeds or not.
\<close>

theorem convert_probe_point_capacity:
  "(pf_ntevs pf = pf_max_tevs pf \<longrightarrow>
      convert_probe_point e sp_die pf w = Done (- ERANGE, pf, pr Warning w))
   \<and> (pf_ntevs pf \<noteq> pf_max_tevs pf \<and> convert_probe_point e sp_die pf w = Done (ret, pf', w') \<longrightarrow>
        pf_ntevs pf' = pf_ntevs pf + 1 \<and> pf_max_tevs pf' = pf_max_tevs pf
        \<and> length (pf_tevs pf') = length (pf_tevs pf)
        \<and> (\<forall>j. j \<noteq> nat (pf_ntevs pf) \<longrightarrow> pf_tevs pf' ! j = pf_tevs pf ! j))"
proof -
  have "convert_probe_point e sp_die pf w = Done (- ERANGE, pf, pr Warning w)"
    if "pf_ntevs pf = pf_max_tevs pf"
    using that by (simp add: convert_probe_point_def)
  moreover have "pf_ntevs pf' = pf_ntevs pf + 1 \<and> pf_max_tevs pf' = pf_max_tevs pf
        \<and> length (pf_tevs pf') = length (pf_tevs pf)
        \<and> (\<forall>j. j \<noteq> nat (pf_ntevs pf) \<longrightarrow> pf_tevs pf' ! j = pf_tevs pf ! j)"
    if "pf_ntevs pf \<noteq> pf_max_tevs pf" "convert_probe_point e sp_die pf w = Done (ret, pf', w')"
    using convert_probe_point_events [OF that(2) that(1)] by simp
  ultimately show ?thesis by blast
qed

theorem convert_probe_point_capacity_witness:
  "\<exists>pf1 w1.
     convert_probe_point example_env (Some fill_die)
       ((probe_finder_init fill_event 1 None)\<lparr>pf_addr := 0x1000\<rparr>) \<lparr>mem = 10, log = []\<rparr>
       = Done (0, pf1, w1)
     \<and> pf_ntevs pf1 = 1 \<and> pf_max_tevs pf1 = 1
     \<and> pf_tevs pf1 = [\<lparr>tev_symbol = Some ''fill'', tev_offset = 0, tev_nargs = 0, tev_args = []\<rparr>]
     \<and> convert_probe_point example_env (Some fill_die) pf1 w1 = Done (- ERANGE, pf1, pr Warning w1)"
proof -
  let ?pf0 = "(probe_finder_init fill_event 1 None)\<lparr>pf_addr := 0x1000\<rparr>"
  let ?pf1 = "(probe_finder_init fill_event 1 None)
     \<lparr>pf_addr := 0x1000, pf_ntevs := 1,
      pf_tevs := [\<lparr>tev_symbol = Some ''fill'', tev_offset = 0, tev_nargs = 0, tev_args = []\<rparr>]\<rparr>"
  let ?w0 = "\<lparr>mem = 10, log = []\<rparr>"
  let ?w1 = "\<lparr>mem = 8, log = [Debug]\<rparr>"
  have run: "convert_probe_point example_env (Some fill_die) ?pf0 ?w0 = Done (0, ?pf1, ?w1)"
    by (simp add: convert_probe_point_def probe_finder_init_def fill_event_def fill_die_def
        no_attrs_def dwarf_tag_def dwarf_diename_def dwarf_entrypc_def zalloc_def pr_def
        update_tev_def frame_base_ops_def zero_trace_event_def Let_def DW_TAG_subprogram_def)
  have room: "pf_ntevs ?pf0 \<noteq> pf_max_tevs ?pf0" by (simp add: probe_finder_init_def)
  from convert_probe_point_capacity
         [of ?pf0 example_env "Some fill_die" ?w0 0 ?pf1 ?w1] run room
  have cnt: "pf_ntevs ?pf1 = pf_ntevs ?pf0 + 1" "pf_max_tevs ?pf1 = pf_max_tevs ?pf0"
    by blast+
  then have full: "pf_ntevs ?pf1 = pf_max_tevs ?pf1" by (simp add: probe_finder_init_def)
  from convert_probe_point_capacity [of ?pf1 example_env "Some fill_die" ?w1] full
  have "convert_probe_point example_env (Some fill_die) ?pf1 ?w1 = Done (- ERANGE, ?pf1, pr Warning ?w1)"
    by blast
  with run show ?thesis
    by (intro exI [of _ ?pf1] exI [of _ ?w1]) (simp add: probe_finder_init_def)
qed

subsection \<open>Reverse lookup\<close>

lemma find_line_found:
  assumes "dwarf_getsrc_die dbg cudie addr = Some line" "dwarf_lineaddr line = Some addr"
    "dwarf_lineno line = Some l" "dwarf_linesrc line = Some src" "mem w = Suc k"
  shows "find_line dbg cudie addr ppt w
         = Inr (ppt\<lparr>pp_line := l, pp_file := Some src\<rparr>, True, w\<lparr>mem := k\<rparr>)"
  using assms by (simp add: find_line_def zalloc_def)

lemma find_line_none:
  assumes "case dwarf_getsrc_die dbg cudie addr of
             None \<Rightarrow> True
           | Some line \<Rightarrow> dwarf_lineaddr line \<noteq> Some addr"
  shows "find_line dbg cudie addr ppt w = Inr (ppt, False, w)"
  using assms by (auto simp: find_line_def split: option.splits)

text \<open>
  The difference of two \<^verbatim>\<open>int\<close> line numbers is the difference of their values
  whenever that difference is itself an \<^verbatim>\<open>int\<close>.
\<close>

lemma line_difference_exact:
  fixes l d :: c_int
  assumes "- (2 ^ 31) \<le> sint l - sint d" "sint l - sint d < 2 ^ 31"
  shows "sint (l - d) = sint l - sint d"
proof -
  have "sint (l - d) = signed_take_bit 31 (sint l - sint d)"
    by (simp add: sint_word_ariths)
  also have "\<dots> = sint l - sint d"
    using assms by (simp add: signed_take_bit_int_eq_self)
  finally show ?thesis .
qed

text \<open>
  C7, as the code has it: the address is in a CU and in a subprogram with a name and an
  entry PC, the point comes zeroed, and two allocations succeed. When the line table has
  a row at exactly the address, with a line \<open>l\<close> that is not 0, the reported line is
  \<open>l - d\<close> for the declaration line \<open>d\<close> of the inline instance that covers the address
  (and the function reported is that instance); without such an instance it is 0 when the
  address is the entry PC of the subprogram, whatever its declaration line, and \<open>l - d\<close>
  for the declaration line \<open>d\<close> of the subprogram otherwise. The subtraction is the one
  of \<^verbatim>\<open>int\<close>, 32 bits wide: \<open>l - d\<close> has the value of the line minus the value of the
  declaration line whenever that difference lies between \<open>- 2\<^sup>3\<^sup>1\<close> and \<open>2\<^sup>3\<^sup>1 - 1\<close>,
  and is that difference reduced modulo \<open>2\<^sup>3\<^sup>2\<close> into this range otherwise. When the
  table has no row at the address, the offset from the entry PC is reported and the line
  stays 0.
\<close>

theorem find_perf_probe_point_relative_line:
  assumes cu: "dwarf_addrdie dbg addr = Some cudie"
    and sp: "die_find_real_subprogram cudie addr = Some spdie"
    and nm: "dwarf_diename spdie = Some fname"
    and ep: "dwarf_entrypc spdie = Some eaddr"
    and zero: "pp_line ppt = 0"
    and m: "2 \<le> mem w"
  shows "(dwarf_getsrc_die dbg cudie addr = Some line \<and> dwarf_lineaddr line = Some addr
            \<and> dwarf_lineno line = Some l \<and> dwarf_linesrc line = Some src \<and> l \<noteq> 0 \<longrightarrow>
            (die_find_inlinefunc spdie addr = Some indie \<and> dwarf_diename indie = Some iname
               \<and> dwarf_decl_line indie = Some d \<longrightarrow>
               find_perf_probe_point (Some dbg) addr ppt w
               = (1, ppt\<lparr>pp_file := Some src, pp_line := l - d, pp_function := Some iname\<rparr>,
                  w\<lparr>mem := mem w - 2\<rparr>))
          \<and> (die_find_inlinefunc spdie addr = None \<and> addr = eaddr \<longrightarrow>
               find_perf_probe_point (Some dbg) addr ppt w
               = (1, ppt\<lparr>pp_file := Some src, pp_line := 0, pp_function := Some fname\<rparr>,
                  w\<lparr>mem := mem w - 2\<rparr>))
          \<and> (die_find_inlinefunc spdie addr = None \<and> addr \<noteq> eaddr
               \<and> dwarf_decl_line spdie = Some d \<longrightarrow>
               find_perf_probe_point (Some dbg) addr ppt w
               = (1, ppt\<lparr>pp_file := Some src, pp_line := l - d, pp_function := Some fname\<rparr>,
                  w\<lparr>mem := mem w - 2\<rparr>)))
       \<and> ((case dwarf_getsrc_die dbg cudie addr of
              None \<Rightarrow> True
            | Some line \<Rightarrow> dwarf_lineaddr line \<noteq> Some addr) \<longrightarrow>
            find_perf_probe_point (Some dbg) addr ppt w
            = (1, ppt\<lparr>pp_offset := addr - eaddr, pp_function := Some fname\<rparr>,
               w\<lparr>mem := mem w - 1\<rparr>))
       \<and> sint (l - d) = signed_take_bit 31 (sint l - sint d)
       \<and> (- (2 ^ 31) \<le> sint l - sint d \<and> sint l - sint d < 2 ^ 31 \<longrightarrow>
            sint (l - d) = sint l - sint d)"
proof -
  from m obtain k where k: "mem w = Suc (Suc k)"
    by (metis Suc_le_D numeral_2_eq_2 Suc_le_mono)
  have za: "zalloc (w\<lparr>mem := Suc k\<rparr>) = Some (w\<lparr>mem := k\<rparr>)"
    by (simp add: zalloc_def)
  have zb: "zalloc w = Some (w\<lparr>mem := Suc k\<rparr>)"
    by (simp add: zalloc_def k)
  have found: "find_perf_probe_point (Some dbg) addr ppt w
         = (case relative_line spdie fname eaddr addr (ppt\<lparr>pp_line := l, pp_file := Some src\<rparr>) of
              None \<Rightarrow> (1, ppt\<lparr>pp_line := l, pp_file := Some src\<rparr>, w\<lparr>mem := Suc k\<rparr>)
            | Some (tmp1, ret, Some n) \<Rightarrow>
                (finish ret True,
                 ppt\<lparr>pp_file := Some src, pp_line := l - n, pp_function := Some tmp1\<rparr>, w\<lparr>mem := k\<rparr>)
            | Some (tmp1, ret, None) \<Rightarrow>
                (finish ret True,
                 ppt\<lparr>pp_line := l, pp_file := Some src, pp_offset := addr - eaddr,
                     pp_function := Some tmp1\<rparr>, w\<lparr>mem := k\<rparr>))"
    if "dwarf_getsrc_die dbg cudie addr = Some line" "dwarf_lineaddr line = Some addr"
       "dwarf_lineno line = Some l" "dwarf_linesrc line = Some src" "l \<noteq> 0"
    using that cu sp nm ep za find_line_found [OF that(1-4) k, of ppt]
    by (simp add: find_perf_probe_point_def finish_def split: option.splits prod.splits)
  have a: "find_perf_probe_point (Some dbg) addr ppt w
               = (1, ppt\<lparr>pp_file := Some src, pp_line := l - d, pp_function := Some iname\<rparr>,
                  w\<lparr>mem := mem w - 2\<rparr>)"
    if "dwarf_getsrc_die dbg cudie addr = Some line" "dwarf_lineaddr line = Some addr"
       "dwarf_lineno line = Some l" "dwarf_linesrc line = Some src" "l \<noteq> 0"
       "die_find_inlinefunc spdie addr = Some indie" "dwarf_diename indie = Some iname"
       "dwarf_decl_line indie = Some d"
    using found [OF that(1-5)] that(6-8) k by (simp add: relative_line_def finish_def)
  have b: "find_perf_probe_point (Some dbg) addr ppt w
               = (1, ppt\<lparr>pp_file := Some src, pp_line := 0, pp_function := Some fname\<rparr>,
                  w\<lparr>mem := mem w - 2\<rparr>)"
    if "dwarf_getsrc_die dbg cudie addr = Some line" "dwarf_lineaddr line = Some addr"
       "dwarf_lineno line = Some l" "dwarf_linesrc line = Some src" "l \<noteq> 0"
       "die_find_inlinefunc spdie addr = None" "addr = eaddr"
    using found [OF that(1-5)] that(6-7) k by (simp add: relative_line_def finish_def)
  have c: "find_perf_probe_point (Some dbg) addr ppt w
               = (1, ppt\<lparr>pp_file := Some src, pp_line := l - d, pp_function := Some fname\<rparr>,
                  w\<lparr>mem := mem w - 2\<rparr>)"
    if "dwarf_getsrc_die dbg cudie addr = Some line" "dwarf_lineaddr line = Some addr"
       "dwarf_lineno line = Some l" "dwarf_linesrc line = Some src" "l \<noteq> 0"
       "die_find_inlinefunc spdie addr = None" "addr \<noteq> eaddr" "dwarf_decl_line spdie = Some d"
    using found [OF that(1-5)] that(6-8) k by (simp add: relative_line_def finish_def)
  have d: "find_perf_probe_point (Some dbg) addr ppt w
            = (1, ppt\<lparr>pp_offset := addr - eaddr, pp_function := Some fname\<rparr>,
               w\<lparr>mem := mem w - 1\<rparr>)"
    if "case dwarf_getsrc_die dbg cudie addr of
              None \<Rightarrow> True
            | Some line \<Rightarrow> dwarf_lineaddr line \<noteq> Some addr"
    using find_line_none [OF that, of ppt w] cu sp nm ep zero zb k
    by (simp add: find_perf_probe_point_def finish_def)
  have e: "sint (l - d) = signed_take_bit 31 (sint l - sint d)"
    by (simp add: sint_word_ariths)
  have f: "sint (l - d) = sint l - sint d"
    if "- (2 ^ 31) \<le> sint l - sint d" "sint l - sint d < 2 ^ 31"
    using that by (rule line_difference_exact)
  from a b c d e f show ?thesis by blast
qed

theorem find_perf_probe_point_witness:
  "find_perf_probe_point (Some example_dwarf) 0x1010 zero_probe_point \<lparr>mem = 2, log = []\<rparr>
   = (1, zero_probe_point\<lparr>pp_file := Some ''lib/fill.c'', pp_line := 5, pp_function := Some ''fill''\<rparr>,
      \<lparr>mem = 0, log = []\<rparr>)
   \<and> find_perf_probe_point (Some example_dwarf) 0x1000 zero_probe_point \<lparr>mem = 2, log = []\<rparr>
   = (1, zero_probe_point\<lparr>pp_file := Some ''lib/fill.c'', pp_line := 0, pp_function := Some ''fill''\<rparr>,
      \<lparr>mem = 0, log = []\<rparr>)
   \<and> find_perf_probe_point (Some example_dwarf) 0x2000 zero_probe_point \<lparr>mem = 2, log = []\<rparr>
   = (1, zero_probe_point\<lparr>pp_file := Some ''lib/fill.c'', pp_line := 28, pp_function := Some ''clear''\<rparr>,
      \<lparr>mem = 0, log = []\<rparr>)
   \<and> find_perf_probe_point (Some example_dwarf) 0x1020 zero_probe_point \<lparr>mem = 2, log = []\<rparr>
   = (1, zero_probe_point\<lparr>pp_offset := 0x20, pp_function := Some ''fill''\<rparr>, \<lparr>mem = 1, log = []\<rparr>)
   \<and> find_perf_probe_point (Some example_dwarf) 0x1030 zero_probe_point \<lparr>mem = 2, log = []\<rparr>
   = (1, zero_probe_point\<lparr>pp_file := Some ''lib/fill.c'', pp_line := 0x7FFFFFF6,
                          pp_function := Some ''fill''\<rparr>,
      \<lparr>mem = 0, log = []\<rparr>)
   \<and> sint (0x7FFFFFF6 :: c_int) = 2147483638
   \<and> sint (15 - 10 :: c_int) = 15 - 10"
proof -
  let ?w = "\<lparr>mem = 2, log = []\<rparr>"
  have cu: "dwarf_addrdie example_dwarf 0x1010 = Some example_cu"
    "dwarf_addrdie example_dwarf 0x1000 = Some example_cu"
    "dwarf_addrdie example_dwarf 0x2000 = Some example_cu"
    "dwarf_addrdie example_dwarf 0x1020 = Some example_cu"
    "dwarf_addrdie example_dwarf 0x1030 = Some example_cu"
    by (simp_all add: example_dwarf_def)
  have sp: "die_find_real_subprogram example_cu 0x1010 = Some fill_die"
    "die_find_real_subprogram example_cu 0x1000 = Some fill_die"
    "die_find_real_subprogram example_cu 0x2000 = Some copy_die"
    "die_find_real_subprogram example_cu 0x1020 = Some fill_die"
    "die_find_real_subprogram example_cu 0x1030 = Some fill_die"
    by code_simp+
  have nm: "dwarf_diename fill_die = Some ''fill''" "dwarf_diename copy_die = Some ''copy''"
    by code_simp+
  have ep: "dwarf_entrypc fill_die = Some 0x1000" "dwarf_entrypc copy_die = Some 0x2000"
    by code_simp+
  have z: "pp_line zero_probe_point = 0" by (simp add: zero_probe_point_def)
  have ln: "dwarf_getsrc_die example_dwarf example_cu 0x1010 = Some (example_line 0x1010 15)"
    "dwarf_getsrc_die example_dwarf example_cu 0x1000 = Some (example_line 0x1000 12)"
    "dwarf_getsrc_die example_dwarf example_cu 0x2000 = Some (example_line 0x2000 31)"
    "dwarf_getsrc_die example_dwarf example_cu 0x1020 = None"
    "dwarf_getsrc_die example_dwarf example_cu 0x1030 = Some (example_line 0x1030 0x80000000)"
    by (simp_all add: example_dwarf_def)
  have inl: "die_find_inlinefunc fill_die 0x1010 = None" "die_find_inlinefunc fill_die 0x1000 = None"
    "die_find_inlinefunc copy_die 0x2000 = Some clear_inlined_die"
    "die_find_inlinefunc fill_die 0x1030 = None"
    by code_simp+
  have dl: "dwarf_decl_line fill_die = Some 10" "dwarf_decl_line clear_inlined_die = Some 3"
    "dwarf_diename clear_inlined_die = Some ''clear''"
    by code_simp+
  from find_perf_probe_point_relative_line
         [OF cu(1) sp(1) nm(1) ep(1) z, where w = ?w and line = "example_line 0x1010 15"
            and l = 15 and src = "''lib/fill.c''" and d = 10]
       ln inl dl
  have a: "find_perf_probe_point (Some example_dwarf) 0x1010 zero_probe_point ?w
     = (1, zero_probe_point\<lparr>pp_file := Some ''lib/fill.c'', pp_line := 5, pp_function := Some ''fill''\<rparr>,
        \<lparr>mem = 0, log = []\<rparr>)"
    by (simp add: example_line_def)
  from find_perf_probe_point_relative_line
         [OF cu(2) sp(2) nm(1) ep(1) z, where w = ?w and line = "example_line 0x1000 12"
            and l = 12 and src = "''lib/fill.c''"]
       ln inl dl
  have b: "find_perf_probe_point (Some example_dwarf) 0x1000 zero_probe_point ?w
     = (1, zero_probe_point\<lparr>pp_file := Some ''lib/fill.c'', pp_line := 0, pp_function := Some ''fill''\<rparr>,
        \<lparr>mem = 0, log = []\<rparr>)"
    by (simp add: example_line_def)
  from find_perf_probe_point_relative_line
         [OF cu(3) sp(3) nm(2) ep(2) z, where w = ?w and line = "example_line 0x2000 31"
            and l = 31 and src = "''lib/fill.c''" and indie = clear_inlined_die
            and iname = "''clear''" and d = 3]
       ln inl dl
  have c: "find_perf_probe_point (Some example_dwarf) 0x2000 zero_probe_point ?w
     = (1, zero_probe_point\<lparr>pp_file := Some ''lib/fill.c'', pp_line := 28, pp_function := Some ''clear''\<rparr>,
        \<lparr>mem = 0, log = []\<rparr>)"
    by (simp add: example_line_def)
  from find_perf_probe_point_relative_line [OF cu(4) sp(4) nm(1) ep(1) z, where w = ?w] ln
  have d: "find_perf_probe_point (Some example_dwarf) 0x1020 zero_probe_point ?w
     = (1, zero_probe_point\<lparr>pp_offset := 0x20, pp_function := Some ''fill''\<rparr>, \<lparr>mem = 1, log = []\<rparr>)"
    by simp
  from find_perf_probe_point_relative_line
         [OF cu(5) sp(5) nm(1) ep(1) z, where w = ?w and line = "example_line 0x1030 0x80000000"
            and l = "0x80000000" and src = "''lib/fill.c''" and d = 10]
       ln inl dl
  have e: "find_perf_probe_point (Some example_dwarf) 0x1030 zero_probe_point ?w
     = (1, zero_probe_point\<lparr>pp_file := Some ''lib/fill.c'', pp_line := 0x7FFFFFF6,
                            pp_function := Some ''fill''\<rparr>,
        \<lparr>mem = 0, log = []\<rparr>)"
    by (simp add: example_line_def)
  from find_perf_probe_point_relative_line
         [OF cu(1) sp(1) nm(1) ep(1) z, where w = ?w and l = 15 and d = 10]
  have f: "sint (15 - 10 :: c_int) = 15 - 10"
    by simp
  have g: "sint (0x7FFFFFF6 :: c_int) = 2147483638"
    by simp
  from a b c d e f g show ?thesis by simp
qed

text \<open>
  C7 as stated fails, in both of its parts. At the entry of \<^verbatim>\<open>fill\<close> (declared in
  line 10, no inline instance) the row of the line table has line 12: the reported line
  is 0, not 12 - 10. At the entry of \<^verbatim>\<open>copy\<close>, which an inline instance of
  \<^verbatim>\<open>clear\<close> (declared in line 3) covers, the row has line 31: the reported line is
  28, not 0.
\<close>

theorem find_perf_probe_point_entry_line:
  "pp_line (fst (snd (find_perf_probe_point (Some example_dwarf) 0x1000 zero_probe_point
                        \<lparr>mem = 2, log = []\<rparr>))) = 0
   \<and> dwarf_getsrc_die example_dwarf example_cu 0x1000 = Some (example_line 0x1000 12)
   \<and> die_find_real_subprogram example_cu 0x1000 = Some fill_die
   \<and> spec_relative_line fill_die 0x1000 12 = Some 2
   \<and> pp_line (fst (snd (find_perf_probe_point (Some example_dwarf) 0x2000 zero_probe_point
                        \<lparr>mem = 2, log = []\<rparr>))) = 28
   \<and> die_find_real_subprogram example_cu 0x2000 = Some copy_die
   \<and> dwarf_entrypc copy_die = Some 0x2000"
  by (intro conjI; code_simp)

end
